theory Spec2Isabelle
  imports Complex_Main "HOL-Library.AList" "HOL-Library.Char_ord" "HOL-Library.List_Lexorder"
begin

section \<open>JavaScript values used by the program\<close>

text \<open>
  Strings are character lists. The program only inspects the ASCII prefix
  \<open>slot-<digits>-\<close> of an object name, so byte strings and UTF-16 strings agree on
  everything modelled here.
\<close>

definition quoted :: "string \<Rightarrow> string" where
  "quoted s = CHR 0x27 # s @ [CHR 0x27]"

definition startsWith :: "string \<Rightarrow> string \<Rightarrow> bool" where
  "startsWith s p = (take (length p) s = p)"

text \<open>\<open>String.prototype.includes\<close>: the pattern occurs somewhere in the string.\<close>

fun includes_str :: "string \<Rightarrow> string \<Rightarrow> bool" where
  "includes_str [] p = (p = [])"
| "includes_str (c # cs) p = (startsWith (c # cs) p \<or> includes_str cs p)"

definition isDigit :: "char \<Rightarrow> bool" where
  "isDigit c = (c \<in> set ''0123456789'')"

definition digitVal :: "char \<Rightarrow> nat" where
  "digitVal c = of_char c - 48"

definition digitChar :: "nat \<Rightarrow> char" where
  "digitChar d = ''0123456789'' ! d"

text \<open>The decimal numeral of a natural number, as a template literal prints an integer
  Number below \<open>10^21\<close>.\<close>

fun decimal :: "nat \<Rightarrow> string" where
  "decimal n = (if n < 10 then [digitChar n] else decimal (n div 10) @ [digitChar (n mod 10)])"

declare decimal.simps [simp del]

text \<open>The mathematical value of a run of decimal digits.\<close>

definition digitsValue :: "string \<Rightarrow> nat" where
  "digitsValue ds = foldl (\<lambda>a c. 10 * a + digitVal c) 0 ds"

subsection \<open>Numbers\<close>

text \<open>
  A JavaScript Number is an IEEE double. The only Numbers the program computes from
  object names are the results of \<open>Number.parseInt\<close> on a non-empty run of decimal digits:
  non-negative integers that a double represents, or \<open>Infinity\<close>. \<open>Fin x\<close> stands for
  the double whose value is the integer \<open>x\<close>.
\<close>

datatype number = Fin nat | Infinity

fun bitLength :: "nat \<Rightarrow> nat" where
  "bitLength n = (if n = 0 then 0 else Suc (bitLength (n div 2)))"

declare bitLength.simps [simp del]

text \<open>
  \<open>toNumber v\<close> is the Number value of the mathematical integer \<open>v\<close>: \<open>v\<close> itself below
  \<open>2^53\<close>, otherwise \<open>v\<close> rounded to 53 significant bits, ties to even, and \<open>Infinity\<close>
  when the rounded value reaches \<open>2^1024\<close>.
\<close>

definition toNumber :: "nat \<Rightarrow> number" where
  "toNumber v =
     (if v < 2 ^ 53 then Fin v
      else
        let e = bitLength v - 53;
            q = v div 2 ^ e;
            r = v mod 2 ^ e;
            h = 2 ^ (e - 1);
            q' = (if h < r \<or> (r = h \<and> odd q) then q + 1 else q);
            x = q' * 2 ^ e
        in if 2 ^ 1024 \<le> x then Infinity else Fin x)"

text \<open>
  \<open>Number.parseInt(ds, 10)\<close> on a non-empty run of decimal digits: the Number value of
  the integer the digits denote. (The language lets an engine read digits after the
  twentieth as zeros; the value is taken exactly here, and nothing proved below depends
  on a digit after the twentieth that is not zero.)
\<close>

definition parseIntDigits :: "string \<Rightarrow> number" where
  "parseIntDigits ds = toNumber (digitsValue ds)"

text \<open>
  A Number used as a property key is first converted to a string, and
  \<open>loadImagesFromSupabase\<close> reads the key back with \<open>Number.parseInt(slotStr, 10)\<close>.
  Below \<open>10^21\<close> the key is the decimal numeral of a value that rounds to the Number, and
  reading it back gives the Number again. From \<open>10^21\<close> on the key is written in exponent
  notation (\<open>1e+21\<close>, \<open>1.5e+300\<close>), of which \<open>parseInt\<close> reads the digits before the first
  non-digit: the leading digit of the shortest numeral that rounds to the Number.
  \<open>Infinity\<close> reads back as \<open>NaN\<close>, written \<open>None\<close>.
\<close>

definition firstDigit :: "nat \<Rightarrow> nat" where
  "firstDigit x =
     (let m = length (decimal x) - 1;
          d = x div 10 ^ m
      in if toNumber ((d + 1) * 10 ^ m) = Fin x then (if d = 9 then 1 else d + 1) else d)"

fun parseIntKey :: "number \<Rightarrow> nat option" where
  "parseIntKey (Fin x) = Some (if x < 10 ^ 21 then x else firstDigit x)"
| "parseIntKey Infinity = None"

subsection \<open>Objects keyed by Numbers\<close>

text \<open>
  \<open>{ [key: number]: string }\<close> is an association list with distinct keys in creation
  order; \<open>obj[k] = v\<close> is \<^const>\<open>AList.update\<close> (replace in place, or append).
  \<open>Object.entries\<close> lists the array-index keys (integers below \<open>2^32 - 1\<close>) in ascending
  order first and the other keys in creation order after them.
\<close>

type_synonym slotMap = "(number \<times> string) list"

fun isArrayIndex :: "number \<Rightarrow> bool" where
  "isArrayIndex (Fin x) = (x < 2 ^ 32 - 1)"
| "isArrayIndex Infinity = False"

fun indexOf :: "number \<Rightarrow> nat" where
  "indexOf (Fin x) = x"
| "indexOf Infinity = 0"

definition Object_entries :: "slotMap \<Rightarrow> (number \<times> string) list" where
  "Object_entries m =
     sort_key (\<lambda>e. indexOf (fst e)) (filter (\<lambda>e. isArrayIndex (fst e)) m)
     @ filter (\<lambda>e. \<not> isArrayIndex (fst e)) m"

subsection \<open>Arrays\<close>

text \<open>
  An array element is a string or \<open>undefined\<close> (\<open>None\<close>). Reading past the end gives
  \<open>undefined\<close>; writing past the end extends the array, leaving holes.
\<close>

definition js_get :: "string option list \<Rightarrow> nat \<Rightarrow> string option" where
  "js_get xs i = (if i < length xs then xs ! i else None)"

definition js_set :: "string option list \<Rightarrow> nat \<Rightarrow> string \<Rightarrow> string option list" where
  "js_set xs i v =
     (if i < length xs then xs[i := Some v]
      else xs @ replicate (i - length xs) None @ [Some v])"

definition truthy :: "string option \<Rightarrow> bool" where
  "truthy x = (case x of None \<Rightarrow> False | Some s \<Rightarrow> s \<noteq> [])"

section \<open>Object names\<close>

text \<open>
  \<open>file.name.match(/^slot-(\d+)-/)\<close>: the name starts with \<open>slot-\<close>, then the longest run
  of digits, which must be non-empty and followed by \<open>-\<close>. The result is the captured
  digit run.
\<close>

definition matchSlot :: "string \<Rightarrow> string option" where
  "matchSlot name =
     (if take 5 name = ''slot-'' then
        (let rest = drop 5 name;
             ds = takeWhile isDigit rest
         in if ds \<noteq> [] \<and> take 1 (dropWhile isDigit rest) = ''-'' then Some ds else None)
      else None)"

definition slotNumber :: "string \<Rightarrow> number option" where
  "slotNumber name = map_option parseIntDigits (matchSlot name)"

section \<open>The log sink, the storage provider and the service object\<close>

datatype level = Info | Warning | Err | Success

type_synonym logEntry = "level \<times> string"

text \<open>
  What a \<open>throw\<close> carries: \<open>new Error(message)\<close>, or the error object that a provider call
  returned (named after the call).
\<close>

datatype exn = JsError string | ProviderError string

text \<open>The fields of \<open>class SupabaseService\<close>; \<open>logger\<close> tells whether \<open>setLogger\<close> has run.\<close>

record SupabaseService =
  logger :: bool
  bucketName :: string
  bucketInitialized :: bool

definition DEFAULT_BUCKET_NAME :: string where
  "DEFAULT_BUCKET_NAME = ''nine-picture-grid-images''"

text \<open>\<open>new SupabaseService()\<close>\<close>

definition newService :: SupabaseService where
  "newService = \<lparr>logger = False, bucketName = DEFAULT_BUCKET_NAME, bucketInitialized = False\<rparr>"

text \<open>
  The requests sent to the storage provider, in the order they are made. An upload
  records the bucket, the object name and the data URL the blob was made from.
\<close>

datatype call =
    ListBuckets
  | CreateBucket string bool nat
  | ListFiles string
  | UploadFile string string string
  | RemoveFiles string "string list"

text \<open>
  The provider (an external collaborator) as the program sees it: whether a client can be
  built (both connection parameters are set), whether \<open>auth.getSession\<close> yields a session,
  the clock read by \<open>Date.now\<close>, the buckets, the object names held by the service's
  bucket (in no particular order), the \<open>getPublicUrl\<close> function, and for each request
  whether it answers with an error. A request answers with either an error or data, so
  the \<open>!files\<close> tests of the program coincide with their \<open>files.length === 0\<close>
  alternatives.
\<close>

record supabase =
  configured :: bool
  session :: bool
  now :: nat
  buckets :: "string list"
  objects :: "string list"
  publicUrl :: "string \<Rightarrow> string \<Rightarrow> string"
  listBucketsFails :: bool
  createBucketFails :: bool
  listFails :: bool
  uploadFails :: bool
  removeFails :: bool
  calls :: "call list"

text \<open>
  One service object, the provider it talks to, the browser's \<open>atob\<close> (does it accept
  the text after the first comma of this data URL) and the process-wide log sink.
\<close>

record world =
  service :: SupabaseService
  supabase :: supabase
  atobAccepts :: "string \<Rightarrow> bool"
  logs :: "logEntry list"

definition addLog :: "string \<Rightarrow> level \<Rightarrow> world \<Rightarrow> world" where
  "addLog message lv w = w\<lparr>logs := logs w @ [(lv, message)]\<rparr>"

text \<open>\<open>private log\<close>: forwards to the logger if one is set (the grid sets \<open>addLog\<close>).\<close>

definition svc_log :: "string \<Rightarrow> level \<Rightarrow> world \<Rightarrow> world" where
  "svc_log message lv w = (if logger (service w) then addLog message lv w else w)"

definition setLogger :: "world \<Rightarrow> world" where
  "setLogger w =
     svc_log ''Supabase service initialized'' Info (w\<lparr>service := (service w)\<lparr>logger := True\<rparr>\<rparr>)"

definition setBucketInitialized :: "world \<Rightarrow> world" where
  "setBucketInitialized w = w\<lparr>service := (service w)\<lparr>bucketInitialized := True\<rparr>\<rparr>"

definition record_call :: "call \<Rightarrow> world \<Rightarrow> world" where
  "record_call c w = w\<lparr>supabase := (supabase w)\<lparr>calls := calls (supabase w) @ [c]\<rparr>\<rparr>"

definition set_objects :: "string list \<Rightarrow> world \<Rightarrow> world" where
  "set_objects os w = w\<lparr>supabase := (supabase w)\<lparr>objects := os\<rparr>\<rparr>"

definition set_buckets :: "string list \<Rightarrow> world \<Rightarrow> world" where
  "set_buckets bs w = w\<lparr>supabase := (supabase w)\<lparr>buckets := bs\<rparr>\<rparr>"

subsection \<open>Provider requests\<close>

text \<open>\<open>getSupabaseClient\<close> throws when a connection parameter is missing.\<close>

definition getClient :: "world \<Rightarrow> exn + unit" where
  "getClient w =
     (if configured (supabase w) then Inr ()
      else Inl (JsError ''Supabase URL or Anon Key is missing''))"

definition storage_listBuckets :: "world \<Rightarrow> (exn + string list) \<times> world" where
  "storage_listBuckets w =
     (let w' = record_call ListBuckets w
      in if listBucketsFails (supabase w) then (Inl (ProviderError ''listBuckets''), w')
         else (Inr (buckets (supabase w)), w'))"

definition storage_createBucket ::
  "string \<Rightarrow> bool \<Rightarrow> nat \<Rightarrow> world \<Rightarrow> (exn + unit) \<times> world" where
  "storage_createBucket name isPublic fileSizeLimit w =
     (let w' = record_call (CreateBucket name isPublic fileSizeLimit) w
      in if createBucketFails (supabase w) then (Inl (ProviderError ''createBucket''), w')
         else (Inr (), set_buckets (buckets (supabase w) @ [name]) w'))"

text \<open>
  The program calls \<open>list()\<close> with no argument, so the client sends its default search
  options: \<open>limit: 100\<close>, \<open>offset: 0\<close> and \<open>sortBy: { column: "name", order: "asc" }\<close>.
  \<open>listed names\<close> is what the provider answers for a bucket holding \<open>names\<close>: the first
  100 names in ascending order, strings compared character by character by code.
\<close>

definition listed :: "string list \<Rightarrow> string list" where
  "listed names = take 100 (sort names)"

definition storage_list :: "string \<Rightarrow> world \<Rightarrow> (exn + string list) \<times> world" where
  "storage_list bucket w =
     (let w' = record_call (ListFiles bucket) w
      in if listFails (supabase w) then (Inl (ProviderError ''list''), w')
         else (Inr (listed (objects (supabase w))), w'))"

text \<open>\<open>upload\<close> with \<open>upsert: true\<close>: an existing name is kept, a new one is added.\<close>

definition storage_upload ::
  "string \<Rightarrow> string \<Rightarrow> string \<Rightarrow> world \<Rightarrow> (exn + unit) \<times> world" where
  "storage_upload bucket fileName imageData w =
     (let w' = record_call (UploadFile bucket fileName imageData) w;
          os = objects (supabase w)
      in if uploadFails (supabase w) then (Inl (ProviderError ''upload''), w')
         else if fileName \<in> set os then (Inr (), w')
         else (Inr (), set_objects (os @ [fileName]) w'))"

definition storage_remove :: "string \<Rightarrow> string list \<Rightarrow> world \<Rightarrow> (exn + unit) \<times> world" where
  "storage_remove bucket names w =
     (let w' = record_call (RemoveFiles bucket names) w
      in if removeFails (supabase w) then (Inl (ProviderError ''remove''), w')
         else (Inr (), set_objects (filter (\<lambda>n. n \<notin> set names) (objects (supabase w))) w'))"

definition getPublicUrl :: "world \<Rightarrow> string \<Rightarrow> string" where
  "getPublicUrl w fileName = publicUrl (supabase w) (bucketName (service w)) fileName"

subsection \<open>try / catch\<close>

text \<open>
  An operation either returns a value (\<open>Inr\<close>) or throws (\<open>Inl\<close>), and changes the state
  in both cases. \<open>try_catch\<close> runs the handler on what the body throws.
\<close>

definition try_catch ::
  "('s \<Rightarrow> (exn + 'a) \<times> 's) \<Rightarrow> (exn \<Rightarrow> 's \<Rightarrow> (exn + 'a) \<times> 's) \<Rightarrow> 's \<Rightarrow> (exn + 'a) \<times> 's" where
  "try_catch body handler s =
     (case body s of
        (Inl e, s') \<Rightarrow> handler e s'
      | (Inr a, s') \<Rightarrow> (Inr a, s'))"

section \<open>SupabaseService\<close>

subsection \<open>ensureBucketExists\<close>

definition ensureBucketExists_try :: "world \<Rightarrow> (exn + bool) \<times> world" where
  "ensureBucketExists_try w =
     (if bucketInitialized (service w) then (Inr True, w)
      else
        case getClient w of
          Inl e \<Rightarrow> (Inl e, w)
        | Inr _ \<Rightarrow>
            (let b = bucketName (service w);
                 w1 = svc_log (''Checking if bucket exists: '' @ quoted b) Info w
             in case storage_listBuckets w1 of
                  (Inl listError, w2) \<Rightarrow>
                    (Inl listError, svc_log ''Error listing buckets'' Err w2)
                | (Inr bs, w2) \<Rightarrow>
                    if b \<in> set bs then
                      (Inr True,
                       setBucketInitialized
                         (svc_log (''Bucket '' @ quoted b @ '' already exists'') Success w2))
                    else
                      (let w3 = svc_log (''Bucket '' @ quoted b
                                   @ '' not found, initiating bucket creation'') Info w2
                       in case storage_createBucket b True 5242880 w3 of
                            (Inl createError, w4) \<Rightarrow>
                              (Inl createError,
                               svc_log (''Failed to create bucket '' @ quoted b) Err w4)
                          | (Inr _, w4) \<Rightarrow>
                              (Inr True,
                               setBucketInitialized
                                 (svc_log (''Successfully created Supabase Storage bucket: ''
                                    @ quoted b) Success w4)))))"

definition ensureBucketExists :: "world \<Rightarrow> (exn + bool) \<times> world" where
  "ensureBucketExists =
     try_catch ensureBucketExists_try
       (\<lambda>error w.
          (Inr False,
           svc_log (''Error ensuring bucket '' @ quoted (bucketName (service w)) @ '' exists'')
             Err w))"

subsection \<open>uploadImage\<close>

definition uploadImage_try :: "string \<Rightarrow> nat \<Rightarrow> world \<Rightarrow> (exn + string option) \<times> world" where
  "uploadImage_try imageData slotNo w =
     (case getClient w of
        Inl e \<Rightarrow> (Inl e, w)
      | Inr _ \<Rightarrow>
          if \<not> session (supabase w) then
            (Inl (JsError ''Authentication required to upload images''), w)
          else
            case ensureBucketExists w of
              (Inl e, w1) \<Rightarrow> (Inl e, w1)
            | (Inr bucketExists, w1) \<Rightarrow>
                (let b = bucketName (service w1)
                 in if \<not> bucketExists then
                      (Inl (JsError (''Cannot upload image: bucket '' @ quoted b
                              @ '' does not exist and could not be created'')), w1)
                    else
                      (let fileName = ''slot-'' @ decimal slotNo @ ''-''
                                        @ decimal (now (supabase w1)) @ ''.jpg'';
                           w2 = svc_log (''Attempting to upload image to bucket '' @ quoted b
                                   @ '', file: '' @ quoted fileName) Info w1
                       in if \<not> atobAccepts w2 imageData then
                            (Inl (JsError ''InvalidCharacterError''), w2)
                          else
                            case storage_upload b fileName imageData w2 of
                              (Inl error, w3) \<Rightarrow>
                                (Inl error,
                                 svc_log (''Error uploading image to bucket '' @ quoted b)
                                   Err w3)
                            | (Inr _, w3) \<Rightarrow>
                                (Inr (Some (getPublicUrl w3 fileName)),
                                 svc_log (''Successfully uploaded image to bucket ''
                                    @ quoted b) Success w3))))"

definition uploadImage :: "string \<Rightarrow> nat \<Rightarrow> world \<Rightarrow> (exn + string option) \<times> world" where
  "uploadImage imageData slotNo =
     try_catch (uploadImage_try imageData slotNo)
       (\<lambda>error w.
          (Inr None,
           svc_log (''Failed to upload image to bucket '' @ quoted (bucketName (service w)))
             Err w))"

subsection \<open>getGridImages\<close>

text \<open>The loop over the listed files: \<open>slotImages[slotNumber] = publicUrl\<close> for each match.\<close>

definition collectSlotImages :: "(string \<Rightarrow> string) \<Rightarrow> string list \<Rightarrow> slotMap" where
  "collectSlotImages url files =
     foldl (\<lambda>slotImages name.
              case slotNumber name of
                None \<Rightarrow> slotImages
              | Some k \<Rightarrow> AList.update k (url name) slotImages)
       [] files"

definition getGridImages_try :: "world \<Rightarrow> (exn + slotMap) \<times> world" where
  "getGridImages_try w =
     (case getClient w of
        Inl e \<Rightarrow> (Inl e, w)
      | Inr _ \<Rightarrow>
          case ensureBucketExists w of
            (Inl e, w1) \<Rightarrow> (Inl e, w1)
          | (Inr bucketExists, w1) \<Rightarrow>
              (let b = bucketName (service w1)
               in if \<not> bucketExists then
                    (Inr [],
                     svc_log (''Cannot retrieve images: bucket '' @ quoted b
                        @ '' does not exist'') Err w1)
                  else
                    (let w2 = svc_log (''Listing files in bucket '' @ quoted b) Info w1
                     in case storage_list b w2 of
                          (Inl error, w3) \<Rightarrow>
                            (Inl error,
                             svc_log (''Error listing files in bucket '' @ quoted b) Err w3)
                        | (Inr files, w3) \<Rightarrow>
                            if files = [] then
                              (Inr [],
                               svc_log (''No files found in bucket '' @ quoted b) Info w3)
                            else
                              (let w4 = svc_log (''Found '' @ decimal (length files)
                                           @ '' files in bucket '' @ quoted b) Success w3;
                                   slotImages = collectSlotImages (getPublicUrl w4) files
                               in (Inr slotImages,
                                   svc_log (''Processed image URLs for ''
                                      @ decimal (length slotImages) @ '' slots'')
                                     Success w4)))))"

definition getGridImages :: "world \<Rightarrow> (exn + slotMap) \<times> world" where
  "getGridImages =
     try_catch getGridImages_try
       (\<lambda>error w.
          (Inr [],
           svc_log (''Error retrieving grid images from bucket ''
              @ quoted (bucketName (service w))) Err w))"

subsection \<open>deleteImage\<close>

definition deleteImage_try :: "nat \<Rightarrow> world \<Rightarrow> (exn + bool) \<times> world" where
  "deleteImage_try slotNo w =
     (case getClient w of
        Inl e \<Rightarrow> (Inl e, w)
      | Inr _ \<Rightarrow>
          if \<not> session (supabase w) then
            (Inl (JsError ''Authentication required to delete images''), w)
          else
            case ensureBucketExists w of
              (Inl e, w1) \<Rightarrow> (Inl e, w1)
            | (Inr bucketExists, w1) \<Rightarrow>
                (let b = bucketName (service w1)
                 in if \<not> bucketExists then
                      (Inr False,
                       svc_log (''Cannot delete image: bucket '' @ quoted b
                          @ '' does not exist'') Err w1)
                    else
                      (let w2 = svc_log (''Listing files in bucket '' @ quoted b
                                   @ '' for slot '' @ decimal slotNo) Info w1
                       in case storage_list b w2 of
                            (Inl listError, w3) \<Rightarrow>
                              (Inl listError,
                               svc_log (''Error listing files in bucket '' @ quoted b) Err w3)
                          | (Inr files, w3) \<Rightarrow>
                              (let filesToDelete =
                                     filter (\<lambda>name. startsWith name
                                               (''slot-'' @ decimal slotNo @ ''-'')) files
                               in if filesToDelete = [] then
                                    (Inr True,
                                     svc_log (''No files found for slot '' @ decimal slotNo
                                        @ '' in bucket '' @ quoted b) Info w3)
                                  else
                                    (let w4 = svc_log (''Attempting to delete ''
                                                 @ decimal (length filesToDelete)
                                                 @ '' files for slot '' @ decimal slotNo)
                                                Info w3
                                     in case storage_remove b filesToDelete w4 of
                                          (Inl deleteError, w5) \<Rightarrow>
                                            (Inl deleteError,
                                             svc_log (''Error deleting files for slot ''
                                                @ decimal slotNo) Err w5)
                                        | (Inr _, w5) \<Rightarrow>
                                            (Inr True,
                                             svc_log (''Successfully deleted files for slot ''
                                                @ decimal slotNo) Success w5))))))"

definition deleteImage :: "nat \<Rightarrow> world \<Rightarrow> (exn + bool) \<times> world" where
  "deleteImage slotNo =
     try_catch (deleteImage_try slotNo)
       (\<lambda>error w.
          (Inr False, svc_log (''Error deleting image for slot '' @ decimal slotNo) Err w))"

section \<open>NinePictureGrid\<close>

text \<open>
  The component state: \<open>images\<close>, \<open>text\<close> (here \<open>gridText\<close>), \<open>zoomedImage\<close>,
  \<open>isLoading\<close> and \<open>error\<close>. A handler reads the state of the render that created it and
  writes through the setters, so a handler is a function from that state (and the
  world) to the new one. \<open>user\<close> is the principal supplied by the auth context, if any.
\<close>

record grid =
  images :: "string option list"
  gridText :: string
  zoomedImage :: "string option"
  isLoading :: bool
  error :: "string option"

text \<open>\<open>Array(9).fill("")\<close>\<close>

definition emptyImages :: "string option list" where
  "emptyImages = replicate 9 (Some [])"

definition initialGrid :: grid where
  "initialGrid =
     \<lparr>images = emptyImages, gridText = [], zoomedImage = None, isLoading = True, error = None\<rparr>"

fun message :: "exn \<Rightarrow> string" where
  "message (JsError m) = m"
| "message (ProviderError m) = m"

subsection \<open>loadImagesFromSupabase\<close>

text \<open>One step of \<open>Object.entries(slotImages).forEach\<close>.\<close>

definition applyEntry :: "string option list \<Rightarrow> number \<times> string \<Rightarrow> string option list" where
  "applyEntry newImages entry =
     (case parseIntKey (fst entry) of
        None \<Rightarrow> newImages
      | Some slot \<Rightarrow> if slot < 9 then js_set newImages slot (snd entry) else newImages)"

definition loadImagesFromSupabase_try :: "grid \<times> world \<Rightarrow> (exn + unit) \<times> grid \<times> world" where
  "loadImagesFromSupabase_try s =
     (let g = fst s;
          g1 = g\<lparr>isLoading := True, error := None\<rparr>;
          w1 = addLog ''Loading images from Supabase'' Info (snd s)
      in case ensureBucketExists w1 of
           (Inl e, w2) \<Rightarrow> (Inl e, g1, w2)
         | (Inr bucketExists, w2) \<Rightarrow>
             if \<not> bucketExists then
               (Inl (JsError ''Failed to ensure bucket exists''), g1, w2)
             else
               case getGridImages w2 of
                 (Inl e, w3) \<Rightarrow> (Inl e, g1, w3)
               | (Inr slotImages, w3) \<Rightarrow>
                   (let newImages = foldl applyEntry (images g) (Object_entries slotImages)
                    in (Inr (),
                        g1\<lparr>images := newImages\<rparr>,
                        addLog ''Images loaded successfully from Supabase'' Success w3)))"

definition loadImagesFromSupabase :: "grid \<times> world \<Rightarrow> (exn + unit) \<times> grid \<times> world" where
  "loadImagesFromSupabase s =
     (case try_catch loadImagesFromSupabase_try
             (\<lambda>error (g, w).
                (Inr (),
                 g\<lparr>error := Some ''Failed to load images. Check the Debug tab for details.''\<rparr>,
                 addLog ''Error loading images from Supabase'' Err w)) s of
        (r, g, w) \<Rightarrow> (r, g\<lparr>isLoading := False\<rparr>, w))"

subsection \<open>handleImageUpload\<close>

definition handleImageUpload_try ::
  "string option \<Rightarrow> nat \<Rightarrow> string \<Rightarrow> grid \<times> world \<Rightarrow> (exn + unit) \<times> grid \<times> world" where
  "handleImageUpload_try user index imageDataUrl s =
     (let g = fst s; w = snd s
      in if user = None then
           (Inr (),
            g\<lparr>error := Some (''You must be signed in to upload images. ''
                   @ ''Please go to the Account tab to sign in.'')\<rparr>,
            addLog ''Upload attempted without authentication'' Err w)
         else
           (let w1 = addLog (''Uploading image to slot '' @ decimal (index + 1)) Info w
            in case uploadImage imageDataUrl index w1 of
                 (Inl e, w2) \<Rightarrow> (Inl e, g, w2)
               | (Inr imageUrl, w2) \<Rightarrow>
                   (case imageUrl of
                      None \<Rightarrow> (Inl (JsError ''Failed to upload image to Supabase''), g, w2)
                    | Some url \<Rightarrow>
                        if url = [] then
                          (Inl (JsError ''Failed to upload image to Supabase''), g, w2)
                        else
                          (Inr (),
                           g\<lparr>images := js_set (images g) index url\<rparr>,
                           addLog (''Image uploaded to slot '' @ decimal (index + 1)
                              @ '' successfully'') Success w2))))"

definition handleImageUpload ::
  "string option \<Rightarrow> nat \<Rightarrow> string \<Rightarrow> grid \<times> world \<Rightarrow> (exn + unit) \<times> grid \<times> world" where
  "handleImageUpload user index imageDataUrl =
     try_catch (handleImageUpload_try user index imageDataUrl)
       (\<lambda>error (g, w).
          (Inr (),
           g\<lparr>error :=
               Some (if includes_str (message error) ''auth''
                     then ''Authentication error: Please sign in again to upload images.''
                     else ''Failed to upload image. Check the Debug tab for details.'')\<rparr>,
           addLog (''Error uploading image to slot '' @ decimal (index + 1)) Err w))"

subsection \<open>handleImageRemove\<close>

definition handleImageRemove_try ::
  "string option \<Rightarrow> nat \<Rightarrow> grid \<times> world \<Rightarrow> (exn + unit) \<times> grid \<times> world" where
  "handleImageRemove_try user index s =
     (let g = fst s; w = snd s
      in if user = None then
           (Inr (),
            g\<lparr>error := Some (''You must be signed in to remove images. ''
                   @ ''Please go to the Account tab to sign in.'')\<rparr>,
            addLog ''Image removal attempted without authentication'' Err w)
         else
           (let w1 = addLog (''Removing image from slot '' @ decimal (index + 1)) Info w
            in case deleteImage index w1 of
                 (Inl e, w2) \<Rightarrow> (Inl e, g, w2)
               | (Inr _, w2) \<Rightarrow>
                   (Inr (),
                    g\<lparr>images := js_set (images g) index []\<rparr>,
                    addLog (''Image removed from slot '' @ decimal (index + 1)
                       @ '' successfully'') Success w2)))"

definition handleImageRemove ::
  "string option \<Rightarrow> nat \<Rightarrow> grid \<times> world \<Rightarrow> (exn + unit) \<times> grid \<times> world" where
  "handleImageRemove user index =
     try_catch (handleImageRemove_try user index)
       (\<lambda>error (g, w).
          (Inr (),
           g\<lparr>error := Some ''Failed to remove image. Check the Debug tab for details.''\<rparr>,
           addLog (''Error removing image from slot '' @ decimal (index + 1)) Err w))"

subsection \<open>handleSave\<close>

definition handleSave_try :: "string option \<Rightarrow> grid \<times> world \<Rightarrow> (exn + unit) \<times> grid \<times> world" where
  "handleSave_try user s =
     (let g = fst s; w = snd s
      in if user = None then
           (Inr (),
            g\<lparr>error := Some (''You must be signed in to save the grid. ''
                   @ ''Please go to the Account tab to sign in.'')\<rparr>,
            addLog ''Save attempted without authentication'' Err w)
         else
           (Inr (), g,
            addLog ''Grid data saved successfully'' Success (addLog ''Saving grid data'' Info w)))"

definition handleSave :: "string option \<Rightarrow> grid \<times> world \<Rightarrow> (exn + unit) \<times> grid \<times> world" where
  "handleSave user =
     try_catch (handleSave_try user)
       (\<lambda>error (g, w). (Inr (), g, addLog ''Error saving grid data'' Err w))"

subsection \<open>handleReset\<close>

text \<open>\<open>for (let i = 0; i < 9; i++) if (images[i]) await deleteImage(i)\<close>, over \<open>[0..<9]\<close>.\<close>

fun deleteAll :: "string option list \<Rightarrow> nat list \<Rightarrow> world \<Rightarrow> (exn + unit) \<times> world" where
  "deleteAll imgs [] w = (Inr (), w)"
| "deleteAll imgs (i # rest) w =
     (if truthy (js_get imgs i) then
        (case deleteImage i w of
           (Inl e, w') \<Rightarrow> (Inl e, w')
         | (Inr _, w') \<Rightarrow> deleteAll imgs rest w')
      else deleteAll imgs rest w)"

definition handleReset_try :: "string option \<Rightarrow> grid \<times> world \<Rightarrow> (exn + unit) \<times> grid \<times> world" where
  "handleReset_try user s =
     (let g = fst s; w = snd s
      in if user = None then
           (Inr (),
            g\<lparr>error := Some (''You must be signed in to reset the grid. ''
                   @ ''Please go to the Account tab to sign in.'')\<rparr>,
            addLog ''Reset attempted without authentication'' Err w)
         else
           (case deleteAll (images g) [0..<9] (addLog ''Resetting grid'' Info w) of
              (Inl e, w') \<Rightarrow> (Inl e, g, w')
            | (Inr _, w') \<Rightarrow>
                (Inr (),
                 g\<lparr>images := emptyImages, gridText := []\<rparr>,
                 addLog ''Grid reset successfully'' Success w')))"

definition handleReset :: "string option \<Rightarrow> grid \<times> world \<Rightarrow> (exn + unit) \<times> grid \<times> world" where
  "handleReset user =
     try_catch (handleReset_try user)
       (\<lambda>error (g, w).
          (Inr (),
           g\<lparr>error := Some ''Failed to reset grid. Check the Debug tab for details.''\<rparr>,
           addLog ''Error resetting grid'' Err w))"

section \<open>ImageUploadSlot: processImageToSquare\<close>

text \<open>
  The browser as the slot sees it: what loading the data URL into an \<open>Image\<close> gives
  (\<open>onload\<close> with the intrinsic width and height, or \<open>onerror\<close>), whether
  \<open>canvas.getContext("2d")\<close> returns a context, and the encoder behind \<open>toDataURL\<close>,
  a function of the canvas, the MIME type and the quality. The image comes from a data
  URL, so the canvas is never tainted and its calls return: the inner \<open>catch\<close> of
  \<open>img.onload\<close> has nothing to handle. \<open>onImageUpload\<close> starts an asynchronous handler
  that touches the grid and the provider only; its effect is taken at the call.
\<close>

record drawImageArgs =
  source :: string
  sx :: real
  sy :: real
  sWidth :: real
  sHeight :: real
  dx :: real
  dy :: real
  dWidth :: real
  dHeight :: real

record canvas =
  width :: nat
  height :: nat
  drawn :: "drawImageArgs option"

record browser =
  decodeImage :: "string \<Rightarrow> (nat \<times> nat) option"
  hasContext2d :: bool
  toDataURL :: "canvas \<Rightarrow> string \<Rightarrow> real \<Rightarrow> string"

record slot =
  isDragging :: bool
  isUploading :: bool
  uploadError :: "string option"

text \<open>Lines 192 to 214: the canvas after it is sized and the image is drawn on it.\<close>

definition squareCanvas :: "string \<Rightarrow> nat \<Rightarrow> nat \<Rightarrow> canvas" where
  "squareCanvas img imgWidth imgHeight =
     (let size = min imgWidth imgHeight;
          offsetX = (real imgWidth - real size) / 2;
          offsetY = (real imgHeight - real size) / 2
      in \<lparr>width = size, height = size,
          drawn = Some \<lparr>source = img, sx = offsetX, sy = offsetY,
                         sWidth = real size, sHeight = real size,
                         dx = 0, dy = 0, dWidth = real size, dHeight = real size\<rparr>\<rparr>)"

definition processImageToSquare ::
  "browser \<Rightarrow> (string \<Rightarrow> grid \<times> world \<Rightarrow> grid \<times> world) \<Rightarrow> string
     \<Rightarrow> slot \<times> grid \<times> world \<Rightarrow> slot \<times> grid \<times> world" where
  "processImageToSquare br onImageUpload dataUrl s =
     (let sl = fst s; g = fst (snd s);
          w = addLog ''Processing image to square format'' Info (snd (snd s))
      in case decodeImage br dataUrl of
           None \<Rightarrow>
             (sl\<lparr>uploadError := Some ''Error loading image for processing'',
                 isUploading := False\<rparr>,
              g, addLog ''Error loading image for processing'' Err w)
         | Some (imgWidth, imgHeight) \<Rightarrow>
             (let w1 = addLog ''Image loaded for processing'' Info w
              in if \<not> hasContext2d br then
                   (case onImageUpload dataUrl
                           (g, addLog ''Failed to get canvas context'' Err w1) of
                      (g', w') \<Rightarrow>
                        (sl\<lparr>uploadError := Some ''Failed to get canvas context'',
                            isUploading := False\<rparr>, g', w'))
                 else
                   (let squareImageDataUrl =
                          toDataURL br (squareCanvas dataUrl imgWidth imgHeight)
                            ''image/jpeg'' (92 / 100)
                    in case onImageUpload squareImageDataUrl
                              (g, addLog ''Image processed successfully'' Success w1) of
                         (g', w') \<Rightarrow> (sl\<lparr>isUploading := False\<rparr>, g', w'))))"

text \<open>The callback the grid passes to slot \<open>index\<close>: \<open>(imageUrl) => handleImageUpload(index, imageUrl)\<close>.\<close>

definition onImageUploadOf ::
  "string option \<Rightarrow> nat \<Rightarrow> string \<Rightarrow> grid \<times> world \<Rightarrow> grid \<times> world" where
  "onImageUploadOf user index imageUrl s = snd (handleImageUpload user index imageUrl s)"

section \<open>The grid invariant\<close>

text \<open>
  The invariant in the words of the data model: \<open>length is always 9; a slot's image
  reference is either empty or a resolvable URL\<close>. A URL is a value of the provider's \<open>getPublicUrl\<close> for the service's
  bucket; \<open>url\<close> is that function.
\<close>

definition slotValue :: "(string \<Rightarrow> string) \<Rightarrow> string option \<Rightarrow> bool" where
  "slotValue url c = (c = Some [] \<or> (\<exists>name. c = Some (url name)))"

definition gridInvariant :: "(string \<Rightarrow> string) \<Rightarrow> string option list \<Rightarrow> bool" where
  "gridInvariant url imgs = (length imgs = 9 \<and> (\<forall>c \<in> set imgs. slotValue url c))"

section \<open>Timestamps and sample states\<close>


text \<open>
  A provider in which every request succeeds, holding the well-known bucket with the
  given object names, and a service with its logger set, as the grid has after mounting.
\<close>

definition exampleUrl :: "string \<Rightarrow> string \<Rightarrow> string" where
  "exampleUrl bucket name = ''https://example.supabase.co/'' @ bucket @ ''/'' @ name"

definition exampleWorld :: "string list \<Rightarrow> world" where
  "exampleWorld names =
     \<lparr>service = \<lparr>logger = True, bucketName = DEFAULT_BUCKET_NAME, bucketInitialized = False\<rparr>,
      supabase =
        \<lparr>configured = True, session = True, now = 1700000000000,
         buckets = [DEFAULT_BUCKET_NAME], objects = names, publicUrl = exampleUrl,
         listBucketsFails = False, createBucketFails = False, listFails = False,
         uploadFails = False, removeFails = False, calls = []\<rparr>,
      atobAccepts = (\<lambda>_. True),
      logs = []\<rparr>"

text \<open>A bucket of 101 objects of slot 3, named as \<open>uploadImage\<close> names them.\<close>

definition slot3Names :: "string list" where
  "slot3Names = map (\<lambda>i. ''slot-3-'' @ decimal (1700000000000 + i) @ ''.jpg'') [0..<101]"

text \<open>The same provider refusing every storage request.\<close>

definition failingWorld :: "string list \<Rightarrow> world" where
  "failingWorld names =
     (exampleWorld names)
       \<lparr>supabase := (supabase (exampleWorld names))
          \<lparr>listBucketsFails := True, createBucketFails := True, listFails := True,
           uploadFails := True, removeFails := True\<rparr>\<rparr>"

text \<open>The same provider with nobody signed in.\<close>

definition signedOutWorld :: "string list \<Rightarrow> world" where
  "signedOutWorld names =
     (exampleWorld names)\<lparr>supabase := (supabase (exampleWorld names))\<lparr>session := False\<rparr>\<rparr>"

text \<open>A browser that decodes every data URL as a 400 by 300 image and encodes a canvas
  as a data URL naming its size.\<close>

definition exampleBrowser :: "bool \<Rightarrow> browser" where
  "exampleBrowser ctx =
     \<lparr>decodeImage = (\<lambda>_. Some (400, 300)),
      hasContext2d = ctx,
      toDataURL = (\<lambda>c mime q. ''data:'' @ mime @ '';base64,''
                      @ decimal (width c) @ ''x'' @ decimal (height c))\<rparr>"

definition exampleSlot :: slot where
  "exampleSlot = \<lparr>isDragging = False, isUploading = True, uploadError = None\<rparr>"

section \<open>Facts about the service\<close>

lemmas world_ops = addLog_def svc_log_def setBucketInitialized_def record_call_def
  set_objects_def set_buckets_def getClient_def

lemmas storage_ops = storage_listBuckets_def storage_createBucket_def storage_list_def
  storage_upload_def storage_remove_def

lemmas ensure_defs = ensureBucketExists_def try_catch_def ensureBucketExists_try_def Let_def

lemma ensure_initialized:
  "bucketInitialized (service w) \<Longrightarrow> ensureBucketExists w = (Inr True, w)"
  by (simp add: ensure_defs)

lemma ensure_returns: "\<exists>b. fst (ensureBucketExists w) = Inr b"
  by (auto simp add: ensure_defs world_ops storage_ops split: if_splits)

lemma ensure_True_initialized:
  "fst (ensureBucketExists w) = Inr True \<Longrightarrow> bucketInitialized (service (snd (ensureBucketExists w)))"
  by (auto simp add: ensure_defs world_ops storage_ops split: if_splits)

lemma ensure_frame:
  "objects (supabase (snd (ensureBucketExists w))) = objects (supabase w)"
  "session (supabase (snd (ensureBucketExists w))) = session (supabase w)"
  "configured (supabase (snd (ensureBucketExists w))) = configured (supabase w)"
  "listFails (supabase (snd (ensureBucketExists w))) = listFails (supabase w)"
  "removeFails (supabase (snd (ensureBucketExists w))) = removeFails (supabase w)"
  "uploadFails (supabase (snd (ensureBucketExists w))) = uploadFails (supabase w)"
  "publicUrl (supabase (snd (ensureBucketExists w))) = publicUrl (supabase w)"
  "bucketName (service (snd (ensureBucketExists w))) = bucketName (service w)"
  "logger (service (snd (ensureBucketExists w))) = logger (service w)"
  by (auto simp add: ensure_defs world_ops storage_ops split: if_splits)


lemma ensure_fails:
  "\<not> bucketInitialized (service w) \<Longrightarrow> listBucketsFails (supabase w) \<Longrightarrow>
     fst (ensureBucketExists w) = Inr False"
  by (auto simp add: ensure_defs world_ops storage_ops split: if_splits)

lemmas example_defs = exampleWorld_def failingWorld_def DEFAULT_BUCKET_NAME_def

section \<open>The bucket check is cached\<close>



section \<open>Facts about getGridImages\<close>

lemma listed_single [simp]: "listed [x] = [x]"
  by (simp add: listed_def)

lemma set_listed: "set (listed names) \<subseteq> set names"
  by (auto simp add: listed_def dest: in_set_takeD)

lemma set_listed_short: "length names \<le> 100 \<Longrightarrow> set (listed names) = set names"
  by (simp add: listed_def)

lemma ensure_logs:
  "take (length (logs w)) (logs (snd (ensureBucketExists w))) = logs w"
  "length (logs w) \<le> length (logs (snd (ensureBucketExists w)))"
  by (auto simp add: ensure_defs world_ops storage_ops split: if_splits)

lemma ensure_cases:
  obtains b w1 where "ensureBucketExists w = (Inr b, w1)"
  using ensure_returns [of w] by (cases "ensureBucketExists w") auto

lemma getPublicUrl_fun:
  "getPublicUrl w = publicUrl (supabase w) (bucketName (service w))"
  by (rule ext) (simp add: getPublicUrl_def)

lemma collectSlotImages_Nil [simp]: "collectSlotImages url [] = []"
  by (simp add: collectSlotImages_def)

lemmas grid_defs = getGridImages_def getGridImages_try_def try_catch_def Let_def

lemma getGridImages_ok:
  assumes "configured (supabase w)" "fst (ensureBucketExists w) = Inr True"
    "\<not> listFails (supabase w)"
  shows "fst (getGridImages w)
           = Inr (collectSlotImages (getPublicUrl w) (listed (objects (supabase w))))"
proof -
  obtain b w1 where e: "ensureBucketExists w = (Inr b, w1)" by (rule ensure_cases)
  with assms have b: "b" by simp
  from e have w1: "w1 = snd (ensureBucketExists w)" by simp
  have f: "objects (supabase w1) = objects (supabase w)" "listFails (supabase w1) = listFails (supabase w)"
    "publicUrl (supabase w1) = publicUrl (supabase w)" "bucketName (service w1) = bucketName (service w)"
    unfolding w1 by (rule ensure_frame)+
  show ?thesis using assms(1,3) e b f
    by (simp add: grid_defs world_ops storage_ops getPublicUrl_fun)
qed

lemma getGridImages_returns: "\<exists>m. fst (getGridImages w) = Inr m"
proof -
  obtain b w1 where e: "ensureBucketExists w = (Inr b, w1)" by (rule ensure_cases)
  show ?thesis using e
    by (simp add: grid_defs world_ops storage_ops)
qed

lemma getGridImages_failure:
  assumes "\<not> configured (supabase w) \<or> fst (ensureBucketExists w) = Inr False \<or> listFails (supabase w)"
  shows "fst (getGridImages w) = Inr []"
    and "logger (service w) \<Longrightarrow> length (logs w) < length (logs (snd (getGridImages w)))"
    and "logger (service w) \<Longrightarrow> take (length (logs w)) (logs (snd (getGridImages w))) = logs w"
    and "logger (service w) \<Longrightarrow> fst (last (logs (snd (getGridImages w)))) = Err"
proof -
  obtain b w1 where e: "ensureBucketExists w = (Inr b, w1)" by (rule ensure_cases)
  from e have w1: "w1 = snd (ensureBucketExists w)" by simp
  have f: "listFails (supabase w1) = listFails (supabase w)"
    "logger (service w1) = logger (service w)"
    unfolding w1 by (rule ensure_frame)+
  have l: "take (length (logs w)) (logs w1) = logs w" "length (logs w) \<le> length (logs w1)"
    unfolding w1 by (rule ensure_logs)+
  show "fst (getGridImages w) = Inr []" using assms e f
    by (auto simp add: grid_defs world_ops storage_ops)
  assume lg: "logger (service w)"
  show "length (logs w) < length (logs (snd (getGridImages w)))" using assms e f l lg
    by (auto simp add: grid_defs world_ops storage_ops)
  show "take (length (logs w)) (logs (snd (getGridImages w))) = logs w" using assms e f l lg
    by (auto simp add: grid_defs world_ops storage_ops)
  show "fst (last (logs (snd (getGridImages w)))) = Err" using assms e f l lg
    by (auto simp add: grid_defs world_ops storage_ops)
qed


lemma map_of_foldl_update:
  "map_of (foldl (\<lambda>slotImages name.
              case slotNumber name of
                None \<Rightarrow> slotImages
              | Some k \<Rightarrow> AList.update k (url name) slotImages) acc files) k
   = (case filter (\<lambda>name. slotNumber name = Some k) files of
        [] \<Rightarrow> map_of acc k
      | m # ms \<Rightarrow> Some (url (last (m # ms))))"
proof (induction files arbitrary: acc)
  case Nil
  then show ?case by simp
next
  case (Cons x xs)
  show ?case
  proof (cases "slotNumber x")
    case None
    then show ?thesis using Cons.IH [of acc] by simp
  next
    case (Some j)
    then show ?thesis using Cons.IH [of "AList.update j (url x) acc"]
      by (simp add: AList.update_conv' split: list.splits)
  qed
qed

lemma map_of_collectSlotImages:
  "map_of (collectSlotImages url files) k
   = (case filter (\<lambda>name. slotNumber name = Some k) files of
        [] \<Rightarrow> None
      | m # ms \<Rightarrow> Some (url (last (m # ms))))"
  unfolding collectSlotImages_def by (simp add: map_of_foldl_update split: list.splits)


lemmas name_eval = slotNumber_def matchSlot_def isDigit_def parseIntDigits_def digitsValue_def
  digitVal_def toNumber_def

lemma example_ensure: "fst (ensureBucketExists (exampleWorld names)) = Inr True"
  by (simp add: ensure_defs world_ops storage_ops example_defs)

section \<open>Which object a slot resolves to\<close>




section \<open>getGridImages does not throw\<close>

text \<open>
  C5. \<open>getGridImages\<close> returns a mapping in every state: nothing it does inside the
  \<open>try\<close> block escapes. When the client cannot be built, the bucket check returns
  \<open>false\<close> or the listing answers with an error, the mapping is empty and, on a service
  whose logger is set, the log sink has grown and its last entry has level \<open>error\<close>.
  In the remaining case the mapping is the one collected from the listing.
\<close>

theorem getGridImages_never_throws:
  "(\<exists>m. fst (getGridImages w) = Inr m)
   \<and> (\<not> configured (supabase w) \<or> fst (ensureBucketExists w) = Inr False \<or> listFails (supabase w) \<longrightarrow>
        fst (getGridImages w) = Inr []
        \<and> (logger (service w) \<longrightarrow>
              length (logs w) < length (logs (snd (getGridImages w)))
              \<and> take (length (logs w)) (logs (snd (getGridImages w))) = logs w
              \<and> fst (last (logs (snd (getGridImages w)))) = Err))
   \<and> (configured (supabase w) \<and> fst (ensureBucketExists w) = Inr True \<and> \<not> listFails (supabase w) \<longrightarrow>
        fst (getGridImages w) = Inr (collectSlotImages (getPublicUrl w) (listed (objects (supabase w)))))"
  using getGridImages_returns [of w] getGridImages_failure [of w] getGridImages_ok [of w]
  by blast

theorem getGridImages_never_throws_witness:
  "fst (getGridImages (failingWorld [''slot-0-100''])) = Inr []
   \<and> logs (failingWorld [''slot-0-100'']) = []
   \<and> 0 < length (logs (snd (getGridImages (failingWorld [''slot-0-100'']))))
   \<and> fst (last (logs (snd (getGridImages (failingWorld [''slot-0-100'']))))) = Err
   \<and> fst (getGridImages (exampleWorld [''slot-0-100'']))
       = Inr (collectSlotImages (getPublicUrl (exampleWorld [''slot-0-100''])) [''slot-0-100''])"
proof -
  let ?f = "failingWorld [''slot-0-100'']" and ?e = "exampleWorld [''slot-0-100'']"
  have f: "fst (ensureBucketExists ?f) = Inr False" "logger (service ?f)" "logs ?f = []"
    by (simp_all add: ensure_fails example_defs)
  have e: "configured (supabase ?e)" "\<not> listFails (supabase ?e)"
    "objects (supabase ?e) = [''slot-0-100'']"
    by (simp_all add: exampleWorld_def)
  show ?thesis
    using getGridImages_never_throws [of ?f] getGridImages_never_throws [of ?e] f e
      example_ensure [of "[''slot-0-100'']"]
    by simp
qed

section \<open>Facts about deleteImage and object names\<close>

lemmas delete_defs = deleteImage_def deleteImage_try_def try_catch_def Let_def

lemma deleteImage_ok:
  assumes "session (supabase w)" "configured (supabase w)"
    "fst (ensureBucketExists w) = Inr True" "\<not> listFails (supabase w)"
    "\<not> removeFails (supabase w)"
  shows "fst (deleteImage n w) = Inr True"
    and "objects (supabase (snd (deleteImage n w)))
          = filter (\<lambda>name. name \<notin> set (filter (\<lambda>name. startsWith name (''slot-'' @ decimal n @ ''-''))
                                          (listed (objects (supabase w)))))
              (objects (supabase w))"
    and "(\<forall>name \<in> set (listed (objects (supabase w))).
             \<not> startsWith name (''slot-'' @ decimal n @ ''-'')) \<Longrightarrow>
           calls (supabase (snd (deleteImage n w)))
             = calls (supabase (snd (ensureBucketExists w))) @ [ListFiles (bucketName (service w))]"
    and "configured (supabase (snd (deleteImage n w)))"
    and "\<not> listFails (supabase (snd (deleteImage n w)))"
    and "bucketInitialized (service (snd (deleteImage n w)))"
    and "getPublicUrl (snd (deleteImage n w)) = getPublicUrl w"
proof -
  obtain b w1 where e: "ensureBucketExists w = (Inr b, w1)" by (rule ensure_cases)
  with assms have b: "b" by simp
  from e have w1: "w1 = snd (ensureBucketExists w)" by simp
  have f: "objects (supabase w1) = objects (supabase w)" "listFails (supabase w1) = listFails (supabase w)"
    "removeFails (supabase w1) = removeFails (supabase w)" "bucketName (service w1) = bucketName (service w)"
    "configured (supabase w1) = configured (supabase w)"
    "publicUrl (supabase w1) = publicUrl (supabase w)"
    unfolding w1 by (rule ensure_frame)+
  have i: "bucketInitialized (service w1)"
    unfolding w1 using assms(3) by (rule ensure_True_initialized)
  let ?p = "\<lambda>name. startsWith name (''slot-'' @ decimal n @ ''-'')"
  show "fst (deleteImage n w) = Inr True" using assms e b f
    by (simp add: delete_defs world_ops storage_ops)
  show "objects (supabase (snd (deleteImage n w)))
          = filter (\<lambda>name. name \<notin> set (filter ?p (listed (objects (supabase w)))))
              (objects (supabase w))"
  proof (cases "filter ?p (listed (objects (supabase w))) = []")
    case True
    then have 1: "objects (supabase (snd (deleteImage n w))) = objects (supabase w)"
      using assms e b f by (simp add: delete_defs world_ops storage_ops)
    have 2: "filter (\<lambda>name. name \<notin> set (filter ?p (listed (objects (supabase w)))))
               (objects (supabase w)) = objects (supabase w)"
      unfolding True by simp
    show ?thesis unfolding 1 2 ..
  next
    case False
    then show ?thesis using assms e b f
      by (simp add: delete_defs world_ops storage_ops)
  qed
  show "configured (supabase (snd (deleteImage n w)))" using assms e b f
    by (simp add: delete_defs world_ops storage_ops)
  show "\<not> listFails (supabase (snd (deleteImage n w)))" using assms e b f
    by (simp add: delete_defs world_ops storage_ops)
  show "bucketInitialized (service (snd (deleteImage n w)))" using assms e b f i
    by (simp add: delete_defs world_ops storage_ops)
  show "getPublicUrl (snd (deleteImage n w)) = getPublicUrl w" using assms e b f
    by (simp add: delete_defs world_ops storage_ops getPublicUrl_fun)
  assume "\<forall>name \<in> set (listed (objects (supabase w))). \<not> ?p name"
  then have "filter ?p (listed (objects (supabase w))) = []" by (simp add: filter_empty_conv)
  then show "calls (supabase (snd (deleteImage n w)))
             = calls (supabase (snd (ensureBucketExists w))) @ [ListFiles (bucketName (service w))]"
    using assms e b f
    by (simp add: delete_defs world_ops storage_ops)
qed

lemma digitChar_digit: "d < 10 \<Longrightarrow> isDigit (digitChar d) \<and> digitVal (digitChar d) = d"
proof -
  assume "d < 10"
  then have "d \<in> {0, 1, 2, 3, 4, 5, 6, 7, 8, 9}" by auto
  then show ?thesis by (auto simp add: isDigit_def digitVal_def digitChar_def)
qed

lemma decimal_digits: "\<forall>c \<in> set (decimal n). isDigit c"
  by (induction n rule: decimal.induct) (subst decimal.simps, simp add: digitChar_digit)

lemma decimal_nonempty: "decimal n \<noteq> []"
  by (subst decimal.simps) simp

lemma digitsValue_snoc: "digitsValue (ds @ [c]) = 10 * digitsValue ds + digitVal c"
  by (simp add: digitsValue_def)

lemma digitsValue_decimal: "digitsValue (decimal n) = n"
proof (induction n rule: decimal.induct)
  case (1 n)
  show ?case
  proof (cases "n < 10")
    case True
    then show ?thesis by (subst decimal.simps) (simp add: digitsValue_def digitChar_digit)
  next
    case False
    then have "digitsValue (decimal (n div 10)) = n div 10" using "1.IH" by simp
    with False show ?thesis
      by (subst decimal.simps) (simp add: digitsValue_snoc digitChar_digit)
  qed
qed

lemma slotNumber_written:
  assumes "k < 2 ^ 53"
  shows "slotNumber (''slot-'' @ decimal k @ ''-'' @ rest) = Some (Fin k)"
proof -
  have "\<not> isDigit CHR ''-''" by (simp add: isDigit_def)
  then have t: "takeWhile isDigit (decimal k @ CHR ''-'' # rest) = decimal k"
    and d: "dropWhile isDigit (decimal k @ CHR ''-'' # rest) = CHR ''-'' # rest"
    using decimal_digits [of k] by (simp_all add: takeWhile_append2 dropWhile_append2)
  have m: "matchSlot (''slot-'' @ decimal k @ ''-'' @ rest) = Some (decimal k)"
    by (simp add: matchSlot_def Let_def t d decimal_nonempty)
  have "toNumber k = Fin k" using assms by (simp add: toNumber_def)
  then show ?thesis using m
    by (simp add: slotNumber_def parseIntDigits_def digitsValue_decimal)
qed

text \<open>
  Every name that \<open>uploadImage\<close> writes, \<open>slot-k-t.jpg\<close> with decimal numerals, is read
  back as slot \<open>k\<close>, so a bucket holding only such names meets the naming condition of
  \<open>deleteImage_within_limit\<close> for every slot.
\<close>

lemma written_names_canonical:
  assumes "\<forall>name \<in> set names. \<exists>k t. k < 2 ^ 53
             \<and> name = ''slot-'' @ decimal k @ ''-'' @ decimal t @ ''.jpg''"
  shows "\<forall>name \<in> set names.
           slotNumber name = Some (Fin n) \<longrightarrow> startsWith name (''slot-'' @ decimal n @ ''-'')"
proof (intro ballI impI)
  fix name assume "name \<in> set names" and n: "slotNumber name = Some (Fin n)"
  with assms obtain k t where k: "k < 2 ^ 53"
    and name: "name = ''slot-'' @ decimal k @ ''-'' @ decimal t @ ''.jpg''" by blast
  from slotNumber_written [OF k, of "decimal t @ ''.jpg''"] n name have "k = n" by simp
  with name show "startsWith name (''slot-'' @ decimal n @ ''-'')"
    by (simp add: startsWith_def)
qed

section \<open>Deleting a slot, then listing\<close>

lemma decimal_inj: "decimal a = decimal b \<Longrightarrow> a = b"
  by (metis digitsValue_decimal)

lemma startsWith_append: "startsWith name p \<Longrightarrow> name = p @ drop (length p) name"
  by (metis append_take_drop_id startsWith_def)

lemma listed_empty_iff: "listed names = [] \<longleftrightarrow> names = []"
  by (cases names) (simp_all add: listed_def)

text \<open>
  With a session, an available client, a successful bucket check and listing and removal
  requests that succeed, \<open>deleteImage n\<close> returns \<open>true\<close>. When the bucket holds at most
  100 objects, it leaves exactly the objects whose name does not start with \<open>slot-n-\<close>,
  and \<open>getGridImages\<close> right after reports slot \<open>n\<close> absent if every stored object that it
  reads as slot \<open>n\<close> is named with the prefix \<open>slot-n-\<close>.
\<close>

lemma deleteImage_within_limit:
  assumes "n < 9" and "session (supabase w)" and "configured (supabase w)"
    and "fst (ensureBucketExists w) = Inr True" and "\<not> listFails (supabase w)"
    and "\<not> removeFails (supabase w)" and "length (objects (supabase w)) \<le> 100"
  shows "fst (deleteImage n w) = Inr True"
    and "objects (supabase (snd (deleteImage n w)))
        = filter (\<lambda>name. \<not> startsWith name (''slot-'' @ decimal n @ ''-'')) (objects (supabase w))"
    and "(\<forall>name \<in> set (objects (supabase w)).
            slotNumber name = Some (Fin n) \<longrightarrow> startsWith name (''slot-'' @ decimal n @ ''-'')) \<Longrightarrow>
          \<exists>m. fst (getGridImages (snd (deleteImage n w))) = Inr m \<and> map_of m (Fin n) = None"
proof -
  let ?p = "\<lambda>name. startsWith name (''slot-'' @ decimal n @ ''-'')"
  let ?objs = "objects (supabase w)"
  let ?w = "snd (deleteImage n w)"
  note d = deleteImage_ok [OF assms(2-6), of n]
  show "fst (deleteImage n w) = Inr True" by (rule d(1))
  have "filter (\<lambda>name. name \<notin> set (filter ?p (listed ?objs))) ?objs = filter (\<lambda>name. \<not> ?p name) ?objs"
    by (rule filter_cong) (simp_all add: set_listed_short [OF assms(7)])
  with d(2) show o: "objects (supabase ?w) = filter (\<lambda>name. \<not> ?p name) ?objs" by simp
  assume c: "\<forall>name \<in> set ?objs. slotNumber name = Some (Fin n) \<longrightarrow> ?p name"
  have "fst (ensureBucketExists ?w) = Inr True" using d(6) by (simp add: ensure_initialized)
  with d(4,5) have "fst (getGridImages ?w)
      = Inr (collectSlotImages (getPublicUrl ?w) (listed (objects (supabase ?w))))"
    by (simp add: getGridImages_ok)
  moreover have "filter (\<lambda>name. slotNumber name = Some (Fin n)) (listed (objects (supabase ?w))) = []"
    unfolding o using c set_listed [of "filter (\<lambda>name. \<not> ?p name) ?objs"]
    by (auto simp add: filter_empty_conv)
  ultimately show "\<exists>m. fst (getGridImages ?w) = Inr m \<and> map_of m (Fin n) = None"
    by (simp add: map_of_collectSlotImages)
qed

text \<open>
  When the bucket holds more than 100 objects, all of slot \<open>n\<close>, \<open>deleteImage n\<close> removes
  the 100 that the listing shows, and \<open>getGridImages\<close> right after still reports slot \<open>n\<close>.
\<close>

lemma deleteImage_beyond_limit:
  assumes "n < 9" and "session (supabase w)" and "configured (supabase w)"
    and "fst (ensureBucketExists w) = Inr True" and "\<not> listFails (supabase w)"
    and "\<not> removeFails (supabase w)"
    and "distinct (objects (supabase w))" and "100 < length (objects (supabase w))"
    and "\<forall>name \<in> set (objects (supabase w)). startsWith name (''slot-'' @ decimal n @ ''-'')"
  shows "fst (deleteImage n w) = Inr True"
    and "\<exists>m. fst (getGridImages (snd (deleteImage n w))) = Inr m \<and> map_of m (Fin n) \<noteq> None"
proof -
  let ?p = "\<lambda>name. startsWith name (''slot-'' @ decimal n @ ''-'')"
  let ?objs = "objects (supabase w)"
  let ?w = "snd (deleteImage n w)"
  let ?rest = "objects (supabase ?w)"
  note d = deleteImage_ok [OF assms(2-6), of n]
  show "fst (deleteImage n w) = Inr True" by (rule d(1))
  have all: "filter ?p (listed ?objs) = listed ?objs"
    using set_listed [of ?objs] assms(9) by (auto simp add: filter_id_conv)
  have rest: "?rest = filter (\<lambda>name. name \<notin> set (listed ?objs)) ?objs"
    by (simp only: d(2) all)
  have "card (set (listed ?objs)) \<le> length (listed ?objs)" by (rule card_length)
  also have "\<dots> \<le> 100" by (simp add: listed_def)
  also have "\<dots> < card (set ?objs)" using assms(7,8) by (simp add: distinct_card)
  finally have "set (listed ?objs) \<noteq> set ?objs" by auto
  with set_listed [of ?objs] obtain x where "x \<in> set ?objs" "x \<notin> set (listed ?objs)" by blast
  then have "x \<in> set ?rest" unfolding rest by simp
  then have ne: "listed ?rest \<noteq> []" by (auto simp add: listed_empty_iff)
  have slot: "slotNumber name = Some (Fin n)" if "name \<in> set (listed ?rest)" for name
  proof -
    from that set_listed [of ?rest] have "name \<in> set ?objs" unfolding rest by auto
    with assms(9) have "name = (''slot-'' @ decimal n @ ''-'') @ drop (length (''slot-'' @ decimal n @ ''-'')) name"
      by (blast intro: startsWith_append)
    moreover have "n < 2 ^ 53" using assms(1) by simp
    ultimately show ?thesis
      using slotNumber_written [of n "drop (length (''slot-'' @ decimal n @ ''-'')) name"] by simp
  qed
  then have "filter (\<lambda>name. slotNumber name = Some (Fin n)) (listed ?rest) = listed ?rest"
    by (simp add: filter_id_conv)
  with ne obtain y ys where "filter (\<lambda>name. slotNumber name = Some (Fin n)) (listed ?rest) = y # ys"
    by (cases "listed ?rest") auto
  moreover have "fst (ensureBucketExists ?w) = Inr True" using d(6) by (simp add: ensure_initialized)
  with d(4,5) have "fst (getGridImages ?w)
      = Inr (collectSlotImages (getPublicUrl ?w) (listed ?rest))"
    by (simp add: getGridImages_ok)
  ultimately show "\<exists>m. fst (getGridImages ?w) = Inr m \<and> map_of m (Fin n) \<noteq> None"
    by (simp add: map_of_collectSlotImages)
qed

lemma slot3Names_facts:
  "length slot3Names = 101" "distinct slot3Names"
  "\<forall>name \<in> set slot3Names. startsWith name (''slot-'' @ decimal 3 @ ''-'')"
proof -
  show "length slot3Names = 101" by (simp add: slot3Names_def)
  have "inj_on (\<lambda>i. ''slot-3-'' @ decimal (1700000000000 + i) @ ''.jpg'') A" for A :: "nat set"
    by (rule inj_onI) (auto dest: decimal_inj)
  then show "distinct slot3Names" unfolding slot3Names_def by (simp add: distinct_map)
  have "decimal 3 = ''3''" by (simp add: decimal.simps digitChar_def)
  then show "\<forall>name \<in> set slot3Names. startsWith name (''slot-'' @ decimal 3 @ ''-'')"
    by (auto simp add: slot3Names_def startsWith_def)
qed

text \<open>
  C4. \<open>deleteImage n\<close> is claimed to remove every stored object whose name starts with
  \<open>slot-n-\<close>, for any number of stored objects, so that \<open>getGridImages\<close> right after
  reports slot \<open>n\<close> absent. It removes the matching names among those that \<open>list()\<close>
  returns, at most 100. For a bucket of 101 objects of slot 3, with a session and every
  request succeeding, \<open>deleteImage 3\<close> returns \<open>true\<close> and \<open>getGridImages\<close> right after
  still has an entry for slot 3.
\<close>

theorem deleteImage_leaves_objects_beyond_limit:
  "length (objects (supabase (exampleWorld slot3Names))) = 101
   \<and> fst (deleteImage 3 (exampleWorld slot3Names)) = Inr True
   \<and> (\<exists>m. fst (getGridImages (snd (deleteImage 3 (exampleWorld slot3Names)))) = Inr m
          \<and> map_of m (Fin 3) \<noteq> None)"
proof -
  let ?w = "exampleWorld slot3Names"
  have a: "session (supabase ?w)" "configured (supabase ?w)" "\<not> listFails (supabase ?w)"
    "\<not> removeFails (supabase ?w)" "objects (supabase ?w) = slot3Names"
    by (simp_all add: exampleWorld_def)
  have n: "(3::nat) < 9" by simp
  have b: "distinct (objects (supabase ?w))" "100 < length (objects (supabase ?w))"
    "\<forall>name \<in> set (objects (supabase ?w)). startsWith name (''slot-'' @ decimal 3 @ ''-'')"
    unfolding a(5) using slot3Names_facts by simp_all
  from deleteImage_beyond_limit [OF n a(1,2) example_ensure a(3,4) b] a(5) slot3Names_facts(1)
  show ?thesis by simp
qed

text \<open>
  A second way for an object of slot \<open>n\<close> to survive: \<open>slot-07-5.jpg\<close> does not start
  with \<open>slot-7-\<close>, so \<open>deleteImage 7\<close> succeeds without removing it, while
  \<open>getGridImages\<close> parses its slot number \<open>07\<close> as 7 and still reports slot 7.
\<close>

lemma deleteImage_leading_zero:
  "fst (deleteImage 7 (exampleWorld [''slot-07-5.jpg''])) = Inr True
   \<and> objects (supabase (snd (deleteImage 7 (exampleWorld [''slot-07-5.jpg''])))) = [''slot-07-5.jpg'']
   \<and> fst (getGridImages (snd (deleteImage 7 (exampleWorld [''slot-07-5.jpg'']))))
       = Inr [(Fin 7, exampleUrl DEFAULT_BUCKET_NAME ''slot-07-5.jpg'')]"
proof -
  let ?w = "exampleWorld [''slot-07-5.jpg'']"
  let ?w' = "snd (deleteImage 7 ?w)"
  have a: "session (supabase ?w)" "configured (supabase ?w)" "\<not> listFails (supabase ?w)"
    "\<not> removeFails (supabase ?w)" "objects (supabase ?w) = [''slot-07-5.jpg'']"
    by (simp_all add: exampleWorld_def)
  note d = deleteImage_ok [OF a(1,2) example_ensure a(3,4), of 7]
  have dec: "decimal 7 = ''7''" by (simp add: decimal.simps digitChar_def)
  have o: "objects (supabase ?w') = [''slot-07-5.jpg'']"
    unfolding d(2) a(5) by (simp add: dec startsWith_def)
  have "fst (ensureBucketExists ?w') = Inr True" using d(6) by (simp add: ensure_initialized)
  with d(4,5) have "fst (getGridImages ?w')
        = Inr (collectSlotImages (getPublicUrl ?w') (listed (objects (supabase ?w'))))"
    by (simp add: getGridImages_ok)
  moreover have "getPublicUrl ?w' = exampleUrl DEFAULT_BUCKET_NAME"
    unfolding d(7) by (simp add: getPublicUrl_fun exampleWorld_def)
  ultimately show ?thesis using d(1) o
    by (simp add: collectSlotImages_def name_eval)
qed

section \<open>Mutations need a signed-in user\<close>

lemma uploadImage_no_session:
  "\<not> session (supabase w) \<Longrightarrow> fst (uploadImage imageData slotNo w) = Inr None"
  "\<not> session (supabase w) \<Longrightarrow> supabase (snd (uploadImage imageData slotNo w)) = supabase w"
  by (simp_all add: uploadImage_def uploadImage_try_def try_catch_def world_ops)

lemma deleteImage_no_session:
  "\<not> session (supabase w) \<Longrightarrow> fst (deleteImage slotNo w) = Inr False"
  "\<not> session (supabase w) \<Longrightarrow> supabase (snd (deleteImage slotNo w)) = supabase w"
  by (simp_all add: deleteImage_def deleteImage_try_def try_catch_def world_ops)

text \<open>
  With no user, each of the grid's mutating handlers (upload, remove, reset, save)
  returns after setting \<open>error\<close> to a message that tells the user to sign in and logging
  the attempt at level \<open>error\<close>: the images array is the one it was, the provider state
  is the one it was, so no storage request was sent and the stored objects are unchanged.
  Without an active session, \<open>uploadImage\<close> returns \<open>null\<close> and \<open>deleteImage\<close> returns
  \<open>false\<close>, again with the provider state unchanged.
\<close>

lemma handlers_without_user:
  "handleImageUpload None index imageDataUrl (g, w)
     = (Inr (),
        g\<lparr>error := Some ''You must be signed in to upload images. Please go to the Account tab to sign in.''\<rparr>,
        addLog ''Upload attempted without authentication'' Err w)
   \<and> handleImageRemove None index (g, w)
     = (Inr (),
        g\<lparr>error := Some ''You must be signed in to remove images. Please go to the Account tab to sign in.''\<rparr>,
        addLog ''Image removal attempted without authentication'' Err w)
   \<and> handleReset None (g, w)
     = (Inr (),
        g\<lparr>error := Some ''You must be signed in to reset the grid. Please go to the Account tab to sign in.''\<rparr>,
        addLog ''Reset attempted without authentication'' Err w)
   \<and> handleSave None (g, w)
     = (Inr (),
        g\<lparr>error := Some ''You must be signed in to save the grid. Please go to the Account tab to sign in.''\<rparr>,
        addLog ''Save attempted without authentication'' Err w)
   \<and> (\<forall>h \<in> {handleImageUpload None index imageDataUrl, handleImageRemove None index,
               handleReset None, handleSave None}.
         images (fst (snd (h (g, w)))) = images g
         \<and> error (fst (snd (h (g, w)))) \<noteq> None
         \<and> supabase (snd (snd (h (g, w)))) = supabase w
         \<and> calls (supabase (snd (snd (h (g, w))))) = calls (supabase w)
         \<and> objects (supabase (snd (snd (h (g, w))))) = objects (supabase w))
   \<and> (\<not> session (supabase w) \<longrightarrow>
         fst (uploadImage imageDataUrl index w) = Inr None
         \<and> supabase (snd (uploadImage imageDataUrl index w)) = supabase w
         \<and> fst (deleteImage index w) = Inr False
         \<and> supabase (snd (deleteImage index w)) = supabase w)"
proof -
  have u: "handleImageUpload None index imageDataUrl (g, w)
     = (Inr (),
        g\<lparr>error := Some ''You must be signed in to upload images. Please go to the Account tab to sign in.''\<rparr>,
        addLog ''Upload attempted without authentication'' Err w)"
    by (simp add: handleImageUpload_def handleImageUpload_try_def try_catch_def)
  have r: "handleImageRemove None index (g, w)
     = (Inr (),
        g\<lparr>error := Some ''You must be signed in to remove images. Please go to the Account tab to sign in.''\<rparr>,
        addLog ''Image removal attempted without authentication'' Err w)"
    by (simp add: handleImageRemove_def handleImageRemove_try_def try_catch_def)
  have t: "handleReset None (g, w)
     = (Inr (),
        g\<lparr>error := Some ''You must be signed in to reset the grid. Please go to the Account tab to sign in.''\<rparr>,
        addLog ''Reset attempted without authentication'' Err w)"
    by (simp add: handleReset_def handleReset_try_def try_catch_def)
  have s: "handleSave None (g, w)
     = (Inr (),
        g\<lparr>error := Some ''You must be signed in to save the grid. Please go to the Account tab to sign in.''\<rparr>,
        addLog ''Save attempted without authentication'' Err w)"
    by (simp add: handleSave_def handleSave_try_def try_catch_def)
  have a: "\<forall>h \<in> {handleImageUpload None index imageDataUrl, handleImageRemove None index,
               handleReset None, handleSave None}.
         images (fst (snd (h (g, w)))) = images g
         \<and> error (fst (snd (h (g, w)))) \<noteq> None
         \<and> supabase (snd (snd (h (g, w)))) = supabase w
         \<and> calls (supabase (snd (snd (h (g, w))))) = calls (supabase w)
         \<and> objects (supabase (snd (snd (h (g, w))))) = objects (supabase w)"
    by (simp add: u r t s addLog_def)
  show ?thesis
    using u r t s a uploadImage_no_session [of w imageDataUrl index]
      deleteImage_no_session [of w index]
    by blast
qed

text \<open>
  C3. The handlers test the user of the auth context; the service tests the provider's
  session. The claim covers both: with no session or user, the operation signals that
  authentication is required and leaves the slot array unchanged. With a user in the
  auth context and no provider session, \<open>deleteImage\<close> and \<open>uploadImage\<close> fail as claimed
  (\<open>false\<close>, \<open>null\<close>), but \<open>handleImageRemove\<close> ignores the result: it empties slot 2, which
  held the URL of the stored object, and sets no message; \<open>handleReset\<close> installs nine
  empty slots, again with no message; \<open>handleImageUpload\<close> reports the general upload
  failure, not the authentication error of its own \<open>includes("auth")\<close> branch. The stored
  object is still there.
\<close>

theorem handlers_without_session_mutate_grid:
  "\<not> session (supabase (signedOutWorld [''slot-2-7.jpg'']))
   \<and> fst (deleteImage 2 (signedOutWorld [''slot-2-7.jpg''])) = Inr False
   \<and> fst (uploadImage ''data:image/jpeg;base64,AAAA'' 2 (signedOutWorld [''slot-2-7.jpg'']))
       = Inr None
   \<and> js_get (images (initialGrid\<lparr>images := js_set emptyImages 2
                         (exampleUrl DEFAULT_BUCKET_NAME ''slot-2-7.jpg'')\<rparr>)) 2
       = Some (exampleUrl DEFAULT_BUCKET_NAME ''slot-2-7.jpg'')
   \<and> js_get (images (fst (snd (handleImageRemove (Some ''user-1'') 2
         (initialGrid\<lparr>images := js_set emptyImages 2
                         (exampleUrl DEFAULT_BUCKET_NAME ''slot-2-7.jpg'')\<rparr>,
          signedOutWorld [''slot-2-7.jpg''])))))
        2
       = Some []
   \<and> error (fst (snd (handleImageRemove (Some ''user-1'') 2
         (initialGrid\<lparr>images := js_set emptyImages 2
                         (exampleUrl DEFAULT_BUCKET_NAME ''slot-2-7.jpg'')\<rparr>,
          signedOutWorld [''slot-2-7.jpg'']))))
       = None
   \<and> objects (supabase (snd (snd (handleImageRemove (Some ''user-1'') 2
         (initialGrid\<lparr>images := js_set emptyImages 2
                         (exampleUrl DEFAULT_BUCKET_NAME ''slot-2-7.jpg'')\<rparr>,
          signedOutWorld [''slot-2-7.jpg''])))))
       = [''slot-2-7.jpg'']
   \<and> images (fst (snd (handleReset (Some ''user-1'')
         (initialGrid\<lparr>images := js_set emptyImages 2
                         (exampleUrl DEFAULT_BUCKET_NAME ''slot-2-7.jpg'')\<rparr>,
          signedOutWorld [''slot-2-7.jpg'']))))
       = emptyImages
   \<and> error (fst (snd (handleReset (Some ''user-1'')
         (initialGrid\<lparr>images := js_set emptyImages 2
                         (exampleUrl DEFAULT_BUCKET_NAME ''slot-2-7.jpg'')\<rparr>,
          signedOutWorld [''slot-2-7.jpg'']))))
       = None
   \<and> error (fst (snd (handleImageUpload (Some ''user-1'') 2 ''data:image/jpeg;base64,AAAA''
         (initialGrid\<lparr>images := js_set emptyImages 2
                         (exampleUrl DEFAULT_BUCKET_NAME ''slot-2-7.jpg'')\<rparr>,
          signedOutWorld [''slot-2-7.jpg'']))))
       = Some ''Failed to upload image. Check the Debug tab for details.''"
proof -
  let ?w = "signedOutWorld [''slot-2-7.jpg'']"
  let ?u = "exampleUrl DEFAULT_BUCKET_NAME ''slot-2-7.jpg''"
  let ?g = "initialGrid\<lparr>images := js_set emptyImages 2 ?u\<rparr>"
  have s: "\<not> session (supabase ?w)" by (simp add: signedOutWorld_def exampleWorld_def)
  have s': "\<not> session (supabase (addLog m l ?w))" for m l
    by (simp add: addLog_def signedOutWorld_def exampleWorld_def)
  have o: "objects (supabase ?w) = [''slot-2-7.jpg'']"
    by (simp add: signedOutWorld_def exampleWorld_def)
  have d: "fst (deleteImage 2 ?w) = Inr False" using s by (rule deleteImage_no_session)
  have u: "fst (uploadImage ''data:image/jpeg;base64,AAAA'' 2 ?w) = Inr None"
    using s by (rule uploadImage_no_session)
  have i: "images ?g = [Some [], Some [], Some ?u, Some [], Some [], Some [], Some [], Some [], Some []]"
    by (simp add: js_set_def emptyImages_def numeral_eq_Suc)
  have g2: "js_get (images ?g) 2 = Some ?u" by (simp add: i js_get_def)
  have e: "error initialGrid = None" by (simp add: initialGrid_def)
  obtain r w2 where del: "deleteImage 2 (addLog (''Removing image from slot '' @ decimal (2 + 1)) Info ?w)
      = (r, w2)"
    by (cases "deleteImage 2 (addLog (''Removing image from slot '' @ decimal (2 + 1)) Info ?w)")
  from deleteImage_no_session [OF s', of 2 "''Removing image from slot '' @ decimal (2 + 1)" Info] del
  have r: "r = Inr False" and w2: "supabase w2 = supabase (addLog (''Removing image from slot '' @ decimal (2 + 1)) Info ?w)"
    by simp_all
  have rem: "fst (snd (handleImageRemove (Some ''user-1'') 2 (?g, ?w))) = ?g\<lparr>images := js_set (images ?g) 2 []\<rparr>"
    "supabase (snd (snd (handleImageRemove (Some ''user-1'') 2 (?g, ?w)))) = supabase ?w"
    using del r w2
    by (simp_all add: handleImageRemove_def handleImageRemove_try_def try_catch_def Let_def addLog_def)
  have rem2: "js_get (images (fst (snd (handleImageRemove (Some ''user-1'') 2 (?g, ?w))))) 2 = Some []"
    unfolding rem(1) by (simp add: i js_set_def js_get_def)
  have rem3: "error (fst (snd (handleImageRemove (Some ''user-1'') 2 (?g, ?w)))) = None"
    unfolding rem(1) by (simp add: e)
  have rem4: "objects (supabase (snd (snd (handleImageRemove (Some ''user-1'') 2 (?g, ?w))))) = [''slot-2-7.jpg'']"
    unfolding rem(2) by (rule o)
  have da: "\<exists>w'. deleteAll imgs is w0 = (Inr (), w')" if "\<not> session (supabase w0)" for imgs "is" w0
    using that
  proof (induction "is" arbitrary: w0)
    case Nil
    then show ?case by simp
  next
    case (Cons j js)
    obtain r' w' where dj: "deleteImage j w0 = (r', w')" by (cases "deleteImage j w0")
    with deleteImage_no_session [OF Cons.prems, of j]
    have "r' = Inr False" "supabase w' = supabase w0" by simp_all
    with Cons dj show ?case by simp
  qed
  from da [OF s', of "images ?g" "[0..<9]" "''Resetting grid''" Info]
  obtain w3 where "deleteAll (images ?g) [0..<9] (addLog ''Resetting grid'' Info ?w) = (Inr (), w3)"
    by blast
  then have res: "fst (snd (handleReset (Some ''user-1'') (?g, ?w)))
      = ?g\<lparr>images := emptyImages, gridText := []\<rparr>"
    by (simp add: handleReset_def handleReset_try_def try_catch_def Let_def)
  have res2: "images (fst (snd (handleReset (Some ''user-1'') (?g, ?w)))) = emptyImages"
    "error (fst (snd (handleReset (Some ''user-1'') (?g, ?w)))) = None"
    unfolding res by (simp_all add: e)
  obtain ru w4 where up: "uploadImage ''data:image/jpeg;base64,AAAA'' 2
       (addLog (''Uploading image to slot '' @ decimal (2 + 1)) Info ?w) = (ru, w4)"
    by (cases "uploadImage ''data:image/jpeg;base64,AAAA'' 2
       (addLog (''Uploading image to slot '' @ decimal (2 + 1)) Info ?w)")
  from uploadImage_no_session(1) [OF s', of "''data:image/jpeg;base64,AAAA''" 2
      "''Uploading image to slot '' @ decimal (2 + 1)" Info] up
  have "ru = Inr None" by simp
  with up have upl: "error (fst (snd (handleImageUpload (Some ''user-1'') 2
        ''data:image/jpeg;base64,AAAA'' (?g, ?w))))
       = Some ''Failed to upload image. Check the Debug tab for details.''"
    by (simp add: handleImageUpload_def handleImageUpload_try_def try_catch_def Let_def
        startsWith_def)
  from s d u g2 rem2 rem3 rem4 res2 upl show ?thesis by blast
qed

section \<open>Facts about uploads in the sample state\<close>

lemmas upload_defs = uploadImage_def uploadImage_try_def handleImageUpload_def
  handleImageUpload_try_def onImageUploadOf_def

lemma dec_now: "decimal 1700000000000 = ''1700000000000''"
  by (simp add: decimal.simps digitChar_def)

lemma example_upload:
  "calls (supabase (snd (onImageUploadOf (Some u) i d
                           (g, addLog m1 l1 (addLog m2 l2 (addLog m3 l3 (exampleWorld [])))))))
     = [ListBuckets,
        UploadFile DEFAULT_BUCKET_NAME (''slot-'' @ decimal i @ ''-1700000000000.jpg'') d]"
  "images (fst (onImageUploadOf (Some u) i d
                  (g, addLog m1 l1 (addLog m2 l2 (addLog m3 l3 (exampleWorld []))))))
     = js_set (images g) i
         (exampleUrl DEFAULT_BUCKET_NAME (''slot-'' @ decimal i @ ''-1700000000000.jpg''))"
  by (simp_all add: upload_defs ensure_defs world_ops storage_ops example_defs getPublicUrl_def
      dec_now exampleUrl_def)

lemma dec_small: "decimal 3 = ''3''" "decimal 5 = ''5''" "decimal 300 = ''300''"
  by (simp_all add: decimal.simps digitChar_def)

lemma squareCanvas_square:
  "width (squareCanvas img w h) = min w h"
  "height (squareCanvas img w h) = min w h"
  "drawn (squareCanvas img w h)
     = Some \<lparr>source = img, sx = (real w - real (min w h)) / 2, sy = (real h - real (min w h)) / 2,
              sWidth = real (min w h), sHeight = real (min w h),
              dx = 0, dy = 0, dWidth = real (min w h), dHeight = real (min w h)\<rparr>"
  by (simp_all add: squareCanvas_def Let_def)

section \<open>The square crop\<close>

text \<open>
  C2, as the code has it. For a data URL that decodes to an image of width \<open>w\<close> and
  height \<open>h\<close>, in a browser whose canvas gives a 2D context, \<open>processImageToSquare\<close>
  hands to \<open>onImageUpload\<close> the encoding, as \<open>image/jpeg\<close> at quality 0.92, of a canvas
  of width and height \<open>min w h\<close> on which the source rectangle at
  \<open>((w - size) / 2, (h - size) / 2)\<close> of size \<open>size \<times> size\<close> is drawn at the origin at the
  same size. The rectangle lies inside the image with equal margins on both sides. In
  particular the output is square with side \<open>min w h\<close> when \<open>w \<noteq> h\<close>.
\<close>

theorem processImageToSquare_crops_square:
  assumes "decodeImage br dataUrl = Some (w, h)" and "hasContext2d br"
  shows "snd (processImageToSquare br onImageUpload dataUrl (sl, g, wd))
           = onImageUpload (toDataURL br (squareCanvas dataUrl w h) ''image/jpeg'' (92 / 100))
               (g, addLog ''Image processed successfully'' Success
                     (addLog ''Image loaded for processing'' Info
                        (addLog ''Processing image to square format'' Info wd)))
    \<and> width (squareCanvas dataUrl w h) = min w h
    \<and> height (squareCanvas dataUrl w h) = min w h
    \<and> (\<exists>d. drawn (squareCanvas dataUrl w h) = Some d
          \<and> source d = dataUrl
          \<and> sx d = (real w - real (min w h)) / 2 \<and> sy d = (real h - real (min w h)) / 2
          \<and> sWidth d = real (min w h) \<and> sHeight d = real (min w h)
          \<and> dx d = 0 \<and> dy d = 0 \<and> dWidth d = real (min w h) \<and> dHeight d = real (min w h)
          \<and> 0 \<le> sx d \<and> sx d + sWidth d \<le> real w \<and> sx d = real w - (sx d + sWidth d)
          \<and> 0 \<le> sy d \<and> sy d + sHeight d \<le> real h \<and> sy d = real h - (sy d + sHeight d))
    \<and> (w \<noteq> h \<longrightarrow> width (squareCanvas dataUrl w h) = height (squareCanvas dataUrl w h)
                  \<and> width (squareCanvas dataUrl w h) = min w h)"
proof -
  have p: "snd (processImageToSquare br onImageUpload dataUrl (sl, g, wd))
           = onImageUpload (toDataURL br (squareCanvas dataUrl w h) ''image/jpeg'' (92 / 100))
               (g, addLog ''Image processed successfully'' Success
                     (addLog ''Image loaded for processing'' Info
                        (addLog ''Processing image to square format'' Info wd)))"
    using assms by (simp add: processImageToSquare_def Let_def split: prod.splits)
  have m: "real (min w h) \<le> real w" "real (min w h) \<le> real h" by simp_all
  have d: "\<exists>d. drawn (squareCanvas dataUrl w h) = Some d
          \<and> source d = dataUrl
          \<and> sx d = (real w - real (min w h)) / 2 \<and> sy d = (real h - real (min w h)) / 2
          \<and> sWidth d = real (min w h) \<and> sHeight d = real (min w h)
          \<and> dx d = 0 \<and> dy d = 0 \<and> dWidth d = real (min w h) \<and> dHeight d = real (min w h)
          \<and> 0 \<le> sx d \<and> sx d + sWidth d \<le> real w \<and> sx d = real w - (sx d + sWidth d)
          \<and> 0 \<le> sy d \<and> sy d + sHeight d \<le> real h \<and> sy d = real h - (sy d + sHeight d)"
    using m by (simp add: squareCanvas_square(3) field_simps)
  show ?thesis using p d by (simp add: squareCanvas_square(1,2))
qed

theorem processImageToSquare_crops_square_witness:
  "width (squareCanvas ''data:image/png;base64,AAAA'' 400 300) = 300
   \<and> height (squareCanvas ''data:image/png;base64,AAAA'' 400 300) = 300
   \<and> (\<exists>d. drawn (squareCanvas ''data:image/png;base64,AAAA'' 400 300) = Some d
          \<and> sx d = 50 \<and> sy d = 0 \<and> sWidth d = 300 \<and> sHeight d = 300)
   \<and> calls (supabase (snd (snd (processImageToSquare (exampleBrowser True)
              (onImageUploadOf (Some ''user-1'') 3) ''data:image/png;base64,AAAA''
              (exampleSlot, initialGrid, exampleWorld [])))))
       = [ListBuckets,
          UploadFile DEFAULT_BUCKET_NAME ''slot-3-1700000000000.jpg''
            ''data:image/jpeg;base64,300x300'']"
proof -
  let ?d = "''data:image/png;base64,AAAA''"
  have a: "decodeImage (exampleBrowser True) ?d = Some (400, 300)" "hasContext2d (exampleBrowser True)"
    by (simp_all add: exampleBrowser_def)
  note t = processImageToSquare_crops_square [OF a,
      where onImageUpload = "onImageUploadOf (Some ''user-1'') 3" and sl = exampleSlot
      and g = initialGrid and wd = "exampleWorld []"]
  have e: "toDataURL (exampleBrowser True) (squareCanvas ?d 400 300) ''image/jpeg'' (92 / 100)
             = ''data:image/jpeg;base64,300x300''"
    by (simp add: exampleBrowser_def squareCanvas_def dec_small)
  from t have "width (squareCanvas ?d 400 300) = 300" "height (squareCanvas ?d 400 300) = 300"
    by simp_all
  moreover from t have "\<exists>d. drawn (squareCanvas ?d 400 300) = Some d
          \<and> sx d = 50 \<and> sy d = 0 \<and> sWidth d = 300 \<and> sHeight d = 300"
    by auto
  moreover from t have "calls (supabase (snd (snd (processImageToSquare (exampleBrowser True)
              (onImageUploadOf (Some ''user-1'') 3) ?d
              (exampleSlot, initialGrid, exampleWorld [])))))
       = [ListBuckets,
          UploadFile DEFAULT_BUCKET_NAME ''slot-3-1700000000000.jpg''
            ''data:image/jpeg;base64,300x300'']"
    unfolding e by (simp add: example_upload(1) dec_small)
  ultimately show ?thesis by blast
qed

text \<open>
  C2, as stated, holds for every decodable image. In a browser whose canvas gives no 2D
  context, a data URL that decodes to a 400 by 300 image is uploaded as it is: the upload
  request carries the original data URL, not the encoding of a square canvas.
\<close>

theorem processImageToSquare_no_context_counterexample:
  "decodeImage (exampleBrowser False) ''data:image/png;base64,QUJD'' = Some (400, 300)
   \<and> calls (supabase (snd (snd (processImageToSquare (exampleBrowser False)
              (onImageUploadOf (Some ''user-1'') 5) ''data:image/png;base64,QUJD''
              (exampleSlot, initialGrid, exampleWorld [])))))
       = [ListBuckets,
          UploadFile DEFAULT_BUCKET_NAME ''slot-5-1700000000000.jpg''
            ''data:image/png;base64,QUJD'']"
proof -
  let ?d = "''data:image/png;base64,QUJD''"
  have a: "decodeImage (exampleBrowser False) ?d = Some (400, 300)"
    "\<not> hasContext2d (exampleBrowser False)"
    by (simp_all add: exampleBrowser_def)
  have "snd (processImageToSquare (exampleBrowser False)
              (onImageUploadOf (Some ''user-1'') 5) ?d (exampleSlot, initialGrid, exampleWorld []))
      = onImageUploadOf (Some ''user-1'') 5 ?d
              (initialGrid, addLog ''Failed to get canvas context'' Err
                    (addLog ''Image loaded for processing'' Info
                       (addLog ''Processing image to square format'' Info (exampleWorld []))))"
    using a by (simp add: processImageToSquare_def Let_def split: prod.splits)
  then show ?thesis using a(1) by (simp add: example_upload(1) dec_small)
qed

section \<open>When the transform fails\<close>

text \<open>
  C7. If the data URL does not decode, \<open>processImageToSquare\<close> sets the slot's
  \<open>uploadError\<close> to \<open>Error loading image for processing\<close>, logs it at level \<open>error\<close> and
  never calls \<open>onImageUpload\<close>: the grid, its images and the provider are as they were.
  If it decodes but the canvas gives no 2D context, \<open>onImageUpload\<close> is called with the
  original data URL, so the unprocessed image is what gets uploaded.
\<close>

theorem processImageToSquare_failures:
  "(decodeImage br dataUrl = None \<longrightarrow>
      processImageToSquare br onImageUpload dataUrl (sl, g, wd)
        = (sl\<lparr>uploadError := Some ''Error loading image for processing'', isUploading := False\<rparr>,
           g,
           addLog ''Error loading image for processing'' Err
             (addLog ''Processing image to square format'' Info wd)))
   \<and> (decodeImage br dataUrl = Some (w, h) \<and> \<not> hasContext2d br \<longrightarrow>
        snd (processImageToSquare br onImageUpload dataUrl (sl, g, wd))
          = onImageUpload dataUrl
              (g, addLog ''Failed to get canvas context'' Err
                    (addLog ''Image loaded for processing'' Info
                       (addLog ''Processing image to square format'' Info wd))))"
  by (simp add: processImageToSquare_def Let_def split: prod.splits)

theorem processImageToSquare_failures_witness:
  "processImageToSquare ((exampleBrowser True)\<lparr>decodeImage := (\<lambda>_. None)\<rparr>)
       (onImageUploadOf (Some ''user-1'') 3) ''data:text/plain;base64,AAAA''
       (exampleSlot, initialGrid, exampleWorld [])
     = (exampleSlot\<lparr>uploadError := Some ''Error loading image for processing'',
                    isUploading := False\<rparr>,
        initialGrid,
        addLog ''Error loading image for processing'' Err
          (addLog ''Processing image to square format'' Info (exampleWorld [])))
   \<and> calls (supabase (snd (snd (processImageToSquare (exampleBrowser False)
              (onImageUploadOf (Some ''user-1'') 3) ''data:image/png;base64,AAAA''
              (exampleSlot, initialGrid, exampleWorld [])))))
       = [ListBuckets,
          UploadFile DEFAULT_BUCKET_NAME ''slot-3-1700000000000.jpg''
            ''data:image/png;base64,AAAA'']
   \<and> images (fst (snd (processImageToSquare (exampleBrowser False)
              (onImageUploadOf (Some ''user-1'') 3) ''data:image/png;base64,AAAA''
              (exampleSlot, initialGrid, exampleWorld []))))
       = js_set emptyImages 3 (exampleUrl DEFAULT_BUCKET_NAME ''slot-3-1700000000000.jpg'')"
proof -
  let ?d = "''data:image/png;base64,AAAA''"
  let ?up = "onImageUploadOf (Some ''user-1'') 3"
  have a: "decodeImage ((exampleBrowser True)\<lparr>decodeImage := (\<lambda>_. None)\<rparr>)
             ''data:text/plain;base64,AAAA'' = None"
    by simp
  have b: "decodeImage (exampleBrowser False) ?d = Some (400, 300) \<and> \<not> hasContext2d (exampleBrowser False)"
    by (simp add: exampleBrowser_def)
  from processImageToSquare_failures [where br = "(exampleBrowser True)\<lparr>decodeImage := (\<lambda>_. None)\<rparr>"
      and dataUrl = "''data:text/plain;base64,AAAA''" and onImageUpload = ?up
      and sl = exampleSlot and g = initialGrid and wd = "exampleWorld []"] a
  have 1: "processImageToSquare ((exampleBrowser True)\<lparr>decodeImage := (\<lambda>_. None)\<rparr>)
       ?up ''data:text/plain;base64,AAAA'' (exampleSlot, initialGrid, exampleWorld [])
     = (exampleSlot\<lparr>uploadError := Some ''Error loading image for processing'',
                    isUploading := False\<rparr>,
        initialGrid,
        addLog ''Error loading image for processing'' Err
          (addLog ''Processing image to square format'' Info (exampleWorld [])))"
    by blast
  from processImageToSquare_failures [where br = "exampleBrowser False" and dataUrl = ?d
      and w = 400 and h = 300 and onImageUpload = ?up and sl = exampleSlot and g = initialGrid
      and wd = "exampleWorld []"] b
  have 2: "snd (processImageToSquare (exampleBrowser False) ?up ?d
                 (exampleSlot, initialGrid, exampleWorld []))
      = ?up ?d (initialGrid, addLog ''Failed to get canvas context'' Err
                    (addLog ''Image loaded for processing'' Info
                       (addLog ''Processing image to square format'' Info (exampleWorld []))))"
    by blast
  have 3: "images initialGrid = emptyImages" by (simp add: initialGrid_def)
  show ?thesis unfolding 1 2 by (simp add: example_upload dec_small 3)
qed

section \<open>Facts about the grid handlers\<close>

lemma getPublicUrl_addLog [simp]: "getPublicUrl (addLog m l w) = getPublicUrl w"
  by (simp add: getPublicUrl_fun addLog_def)

lemma ensure_getPublicUrl: "getPublicUrl (snd (ensureBucketExists w)) = getPublicUrl w"
  by (simp add: getPublicUrl_fun ensure_frame)

lemma uploadImage_result:
  "fst (uploadImage d n w) = Inr None
   \<or> (\<exists>name. fst (uploadImage d n w) = Inr (Some (getPublicUrl w name)))"
proof -
  obtain b w1 where e: "ensureBucketExists w = (Inr b, w1)" by (rule ensure_cases)
  then have "getPublicUrl w1 = getPublicUrl w" using ensure_getPublicUrl [of w] by simp
  then have f: "publicUrl (supabase w1) (bucketName (service w1))
                 = publicUrl (supabase w) (bucketName (service w))"
    by (simp add: getPublicUrl_fun)
  show ?thesis using e f
    by (auto simp add: uploadImage_def uploadImage_try_def try_catch_def Let_def world_ops
        storage_ops getPublicUrl_def)
qed

lemma getGridImages_result:
  "fst (getGridImages w) = Inr []
   \<or> fst (getGridImages w)
        = Inr (collectSlotImages (getPublicUrl w) (listed (objects (supabase w))))"
proof -
  obtain b where "fst (ensureBucketExists w) = Inr b" using ensure_returns by blast
  then show ?thesis
    using getGridImages_failure(1) [of w] getGridImages_ok [of w] by (cases b) auto
qed

lemma set_update_subset: "set (AList.update k v al) \<subseteq> insert (k, v) (set al)"
  by (induction al) auto

lemma collect_values_foldl:
  "e \<in> set (foldl (\<lambda>slotImages name.
              case slotNumber name of
                None \<Rightarrow> slotImages
              | Some k \<Rightarrow> AList.update k (url name) slotImages) acc files)
   \<Longrightarrow> e \<in> set acc \<or> (\<exists>name \<in> set files. slotNumber name = Some (fst e) \<and> snd e = url name)"
proof (induction files arbitrary: acc)
  case Nil
  then show ?case by simp
next
  case (Cons x xs)
  show ?case
  proof (cases "slotNumber x")
    case None
    then show ?thesis using Cons.IH [of acc] Cons.prems by auto
  next
    case (Some k)
    then have "e \<in> set (AList.update k (url x) acc)
       \<or> (\<exists>name \<in> set xs. slotNumber name = Some (fst e) \<and> snd e = url name)"
      using Cons.IH [of "AList.update k (url x) acc"] Cons.prems by simp
    then show ?thesis using set_update_subset [of k "url x" acc] Some by auto
  qed
qed

lemma collect_values:
  "e \<in> set (collectSlotImages url files)
   \<Longrightarrow> \<exists>name \<in> set files. slotNumber name = Some (fst e) \<and> snd e = url name"
  unfolding collectSlotImages_def using collect_values_foldl [of e url "[]" files] by simp

lemma set_Object_entries [simp]: "set (Object_entries m) = set m"
  by (auto simp add: Object_entries_def)

lemma js_set_inv:
  "gridInvariant url imgs \<Longrightarrow> i < 9 \<Longrightarrow> slotValue url (Some v)
     \<Longrightarrow> gridInvariant url (js_set imgs i v)"
  unfolding gridInvariant_def js_set_def
  by (auto dest!: set_update_subset_insert [THEN subsetD])

lemma js_set_url_inv:
  "gridInvariant url imgs \<Longrightarrow> i < 9 \<Longrightarrow> gridInvariant url (js_set imgs i (url name))"
  "gridInvariant url imgs \<Longrightarrow> i < 9 \<Longrightarrow> gridInvariant url (js_set imgs i [])"
  by (rule js_set_inv; auto simp add: slotValue_def)+

lemma applyEntry_inv:
  "gridInvariant url imgs \<Longrightarrow> slotValue url (Some (snd e))
     \<Longrightarrow> gridInvariant url (applyEntry imgs e)"
  by (simp add: applyEntry_def js_set_inv split: option.splits)

lemma foldl_applyEntry_inv:
  "gridInvariant url imgs \<Longrightarrow> \<forall>e \<in> set es. slotValue url (Some (snd e))
     \<Longrightarrow> gridInvariant url (foldl applyEntry imgs es)"
  by (induction es arbitrary: imgs) (simp_all add: applyEntry_inv)

lemma emptyImages_inv: "gridInvariant url emptyImages"
  by (simp add: gridInvariant_def emptyImages_def slotValue_def)

lemma load_images:
  "images (fst (snd (loadImagesFromSupabase (g, w)))) = images g
   \<or> (\<exists>m. (m = [] \<or> m = collectSlotImages (getPublicUrl w) (listed (objects (supabase w))))
         \<and> images (fst (snd (loadImagesFromSupabase (g, w))))
             = foldl applyEntry (images g) (Object_entries m))"
proof -
  let ?w1 = "addLog ''Loading images from Supabase'' Info w"
  obtain b w2 where e: "ensureBucketExists ?w1 = (Inr b, w2)" by (rule ensure_cases)
  obtain r w3 where gi: "getGridImages w2 = (r, w3)" by (cases "getGridImages w2")
  have u: "getPublicUrl w2 = getPublicUrl w" using ensure_getPublicUrl [of ?w1] e by simp
  have o: "objects (supabase w2) = objects (supabase w)"
    using ensure_frame(1) [of ?w1] e by (simp add: addLog_def)
  from getGridImages_result [of w2] gi u o
  have r: "r = Inr [] \<or> r = Inr (collectSlotImages (getPublicUrl w) (listed (objects (supabase w))))"
    by simp
  show ?thesis using e gi r
    by (auto simp add: loadImagesFromSupabase_def loadImagesFromSupabase_try_def try_catch_def
        Let_def)
qed

lemma upload_images:
  "images (fst (snd (handleImageUpload user index d (g, w)))) = images g
   \<or> (\<exists>name. images (fst (snd (handleImageUpload user index d (g, w))))
               = js_set (images g) index (getPublicUrl w name))"
proof -
  let ?w1 = "addLog (''Uploading image to slot '' @ decimal (index + 1)) Info w"
  obtain r w2 where up: "uploadImage d index ?w1 = (r, w2)" by (cases "uploadImage d index ?w1")
  from uploadImage_result [of d index ?w1] up
  consider "r = Inr None" | name where "r = Inr (Some (getPublicUrl w name))" by auto
  then show ?thesis
  proof cases
    case 1
    with up show ?thesis
      by (simp add: handleImageUpload_def handleImageUpload_try_def try_catch_def Let_def)
  next
    case 2
    with up have "images (fst (snd (handleImageUpload user index d (g, w)))) = images g
      \<or> images (fst (snd (handleImageUpload user index d (g, w))))
               = js_set (images g) index (getPublicUrl w name)"
      by (simp add: handleImageUpload_def handleImageUpload_try_def try_catch_def Let_def)
    then show ?thesis by blast
  qed
qed

lemma remove_images:
  "images (fst (snd (handleImageRemove user index (g, w)))) = images g
   \<or> images (fst (snd (handleImageRemove user index (g, w)))) = js_set (images g) index []"
proof -
  let ?w1 = "addLog (''Removing image from slot '' @ decimal (index + 1)) Info w"
  obtain r w2 where "deleteImage index ?w1 = (r, w2)" by (cases "deleteImage index ?w1")
  then show ?thesis
    by (cases r) (auto simp add: handleImageRemove_def handleImageRemove_try_def try_catch_def Let_def)
qed

lemma reset_images:
  "images (fst (snd (handleReset user (g, w)))) = images g
   \<or> images (fst (snd (handleReset user (g, w)))) = emptyImages"
proof -
  let ?w1 = "addLog ''Resetting grid'' Info w"
  obtain r w2 where "deleteAll (images g) [0..<9] ?w1 = (r, w2)"
    by (cases "deleteAll (images g) [0..<9] ?w1")
  then show ?thesis
    by (cases r) (auto simp add: handleReset_def handleReset_try_def try_catch_def Let_def)
qed

lemma save_images: "images (fst (snd (handleSave user (g, w)))) = images g"
  by (simp add: handleSave_def handleSave_try_def try_catch_def Let_def)

section \<open>The grid always has nine slots\<close>

text \<open>
  C8. The images array is created with nine empty strings, and every operation keeps it
  an array of exactly nine strings, each the empty string or a public URL of the
  service's bucket: the load (initial, on sign-in, or on Try Again), an upload or a
  removal at an index 0..8 (the indices the nine rendered slots pass), a reset and a
  save, whether they succeed or fail.
\<close>

theorem grid_keeps_nine_slots:
  "gridInvariant (getPublicUrl w) (images initialGrid)
   \<and> (\<forall>imgs. gridInvariant (getPublicUrl w) imgs \<longrightarrow>
          length imgs = 9
          \<and> (\<forall>c \<in> set imgs. c = Some [] \<or> (\<exists>name. c = Some (getPublicUrl w name))))
   \<and> (gridInvariant (getPublicUrl w) (images g) \<longrightarrow>
         gridInvariant (getPublicUrl w) (images (fst (snd (loadImagesFromSupabase (g, w)))))
         \<and> (index < 9 \<longrightarrow>
               gridInvariant (getPublicUrl w)
                 (images (fst (snd (handleImageUpload user index imageDataUrl (g, w))))))
         \<and> (index < 9 \<longrightarrow>
               gridInvariant (getPublicUrl w)
                 (images (fst (snd (handleImageRemove user index (g, w))))))
         \<and> gridInvariant (getPublicUrl w) (images (fst (snd (handleReset user (g, w)))))
         \<and> gridInvariant (getPublicUrl w) (images (fst (snd (handleSave user (g, w))))))"
proof -
  let ?url = "getPublicUrl w"
  have init: "gridInvariant ?url (images initialGrid)"
    by (simp add: initialGrid_def emptyImages_inv)
  have meaning: "\<forall>imgs. gridInvariant ?url imgs \<longrightarrow>
          length imgs = 9 \<and> (\<forall>c \<in> set imgs. c = Some [] \<or> (\<exists>name. c = Some (?url name)))"
    by (simp add: gridInvariant_def slotValue_def)
  have step: "gridInvariant ?url (images (fst (snd (loadImagesFromSupabase (g, w)))))
         \<and> (index < 9 \<longrightarrow>
               gridInvariant ?url (images (fst (snd (handleImageUpload user index imageDataUrl (g, w))))))
         \<and> (index < 9 \<longrightarrow>
               gridInvariant ?url (images (fst (snd (handleImageRemove user index (g, w))))))
         \<and> gridInvariant ?url (images (fst (snd (handleReset user (g, w)))))
         \<and> gridInvariant ?url (images (fst (snd (handleSave user (g, w)))))"
    if inv: "gridInvariant ?url (images g)"
  proof (intro conjI impI)
    have v: "gridInvariant ?url (foldl applyEntry (images g) (Object_entries m))"
      if m: "m = [] \<or> m = collectSlotImages ?url (listed (objects (supabase w)))" for m
    proof (rule foldl_applyEntry_inv [OF inv], rule ballI)
      fix e assume "e \<in> set (Object_entries m)"
      then have "e \<in> set m" by simp
      with m have "e \<in> set (collectSlotImages ?url (listed (objects (supabase w))))" by auto
      then show "slotValue ?url (Some (snd e))"
        using collect_values [of e ?url "listed (objects (supabase w))"] by (auto simp add: slotValue_def)
    qed
    from load_images [of g w] show "gridInvariant ?url (images (fst (snd (loadImagesFromSupabase (g, w)))))"
    proof
      assume "images (fst (snd (loadImagesFromSupabase (g, w)))) = images g"
      with inv show ?thesis by simp
    next
      assume "\<exists>m. (m = [] \<or> m = collectSlotImages ?url (listed (objects (supabase w))))
         \<and> images (fst (snd (loadImagesFromSupabase (g, w))))
             = foldl applyEntry (images g) (Object_entries m)"
      then obtain m where "m = [] \<or> m = collectSlotImages ?url (listed (objects (supabase w)))"
        and "images (fst (snd (loadImagesFromSupabase (g, w))))
             = foldl applyEntry (images g) (Object_entries m)" by blast
      with v show ?thesis by simp
    qed
  next
    assume "index < 9"
    then show "gridInvariant ?url (images (fst (snd (handleImageUpload user index imageDataUrl (g, w)))))"
      using upload_images [of user index imageDataUrl g w] inv
      by (auto intro: js_set_url_inv)
  next
    assume "index < 9"
    then show "gridInvariant ?url (images (fst (snd (handleImageRemove user index (g, w)))))"
      using remove_images [of user index g w] inv
      by (auto intro: js_set_url_inv)
  next
    show "gridInvariant ?url (images (fst (snd (handleReset user (g, w)))))"
      using reset_images [of user g w] inv emptyImages_inv [of ?url] by auto
  next
    show "gridInvariant ?url (images (fst (snd (handleSave user (g, w)))))"
      using inv by (simp add: save_images)
  qed
  show ?thesis using init meaning step by blast
qed

theorem grid_keeps_nine_slots_witness:
  "length (images initialGrid) = 9
   \<and> length (images (fst (snd (loadImagesFromSupabase (initialGrid, exampleWorld [''slot-2-7.jpg''])))))
       = 9
   \<and> length (images (fst (snd (handleImageUpload (Some ''user-1'') 2 ''data:image/jpeg;base64,AAAA''
                                   (initialGrid, exampleWorld [''slot-2-7.jpg''])))))
       = 9
   \<and> length (images (fst (snd (handleImageRemove (Some ''user-1'') 2
                                   (initialGrid, exampleWorld [''slot-2-7.jpg''])))))
       = 9
   \<and> length (images (fst (snd (handleReset (Some ''user-1'')
                                   (initialGrid, exampleWorld [''slot-2-7.jpg''])))))
       = 9"
proof -
  have n: "(2::nat) < 9" by simp
  note t = grid_keeps_nine_slots [where w = "exampleWorld [''slot-2-7.jpg'']" and g = initialGrid
      and index = 2 and user = "Some ''user-1''" and imageDataUrl = "''data:image/jpeg;base64,AAAA''"]
  from t have i: "gridInvariant (getPublicUrl (exampleWorld [''slot-2-7.jpg''])) (images initialGrid)"
    by blast
  from t have m: "\<And>imgs. gridInvariant (getPublicUrl (exampleWorld [''slot-2-7.jpg''])) imgs
                    \<Longrightarrow> length imgs = 9"
    by blast
  from t i n show ?thesis by (intro conjI m) blast+
qed

section \<open>Facts about reloading\<close>

lemma load_ok:
  assumes "configured (supabase w)"
    and "fst (ensureBucketExists (addLog ''Loading images from Supabase'' Info w)) = Inr True"
    and "\<not> listFails (supabase w)"
  shows "images (fst (snd (loadImagesFromSupabase (g, w))))
           = foldl applyEntry (images g)
               (Object_entries (collectSlotImages (getPublicUrl w) (listed (objects (supabase w)))))"
proof -
  let ?w1 = "addLog ''Loading images from Supabase'' Info w"
  obtain b w2 where e: "ensureBucketExists ?w1 = (Inr b, w2)" by (rule ensure_cases)
  with assms(2) have b: "b" by simp
  from e have w2: "w2 = snd (ensureBucketExists ?w1)" by simp
  obtain r w3 where gi: "getGridImages w2 = (r, w3)" by (cases "getGridImages w2")
  have u: "getPublicUrl w2 = getPublicUrl w" using ensure_getPublicUrl [of ?w1] e by simp
  have o: "objects (supabase w2) = objects (supabase w)"
    "configured (supabase w2)" "\<not> listFails (supabase w2)"
    unfolding w2 using assms(1,3) by (simp_all add: ensure_frame addLog_def)
  have i: "fst (ensureBucketExists w2) = Inr True"
    unfolding w2 using assms(2) by (simp add: ensure_True_initialized ensure_initialized)
  from getGridImages_ok [OF o(2) i o(3)] gi u o(1)
  have r: "r = Inr (collectSlotImages (getPublicUrl w) (listed (objects (supabase w))))" by simp
  show ?thesis using e b gi r
    by (simp add: loadImagesFromSupabase_def loadImagesFromSupabase_try_def try_catch_def Let_def)
qed




lemma big_decimal: "decimal 1000000000000000000000 = ''1000000000000000000000''"
  by (simp add: decimal.simps digitChar_def)

lemma big_bits: "bitLength 1000000000000000000000 = 70" "bitLength 2000000000000000000000 = 71"
  by (simp_all add: bitLength.simps)

lemma big_toNumber:
  "toNumber 1000000000000000000000 = Fin 1000000000000000000000"
  "toNumber 2000000000000000000000 = Fin 2000000000000000000000"
  by (simp_all add: toNumber_def Let_def big_bits)

lemma big_first: "firstDigit 1000000000000000000000 = 1"
  by (simp add: firstDigit_def Let_def big_decimal big_toNumber)

lemma big_key: "parseIntKey (Fin 1000000000000000000000) = Some 1"
  by (simp add: big_first)

lemma big_slotNumber:
  "slotNumber ''slot-1000000000000000000000-1.jpg'' = Some (Fin 1000000000000000000000)"
  by (simp add: slotNumber_def matchSlot_def isDigit_def parseIntDigits_def digitsValue_def
      digitVal_def big_toNumber)


lemma parseIntKey_below: "x < 10 ^ 21 \<Longrightarrow> parseIntKey (Fin x) = Some x"
  by simp

lemma js_get_js_set_other: "s \<noteq> i \<Longrightarrow> js_get (js_set xs s v) i = js_get xs i"
  by (auto simp add: js_get_def js_set_def nth_append nth_Cons')

lemma applyEntry_other:
  "parseIntKey (fst e) \<noteq> Some i \<Longrightarrow> js_get (applyEntry imgs e) i = js_get imgs i"
  by (auto simp add: applyEntry_def js_get_js_set_other split: option.splits)

lemma foldl_applyEntry_other:
  "\<forall>e \<in> set es. parseIntKey (fst e) \<noteq> Some i
     \<Longrightarrow> js_get (foldl applyEntry imgs es) i = js_get imgs i"
  by (induction es arbitrary: imgs) (simp_all add: applyEntry_other)

text \<open>
  A reload leaves slot \<open>i\<close> as it was unless some listed object's slot number reads back
  as \<open>i\<close>. A slot number below \<open>10^21\<close> reads back as itself, so among such objects only
  those of slot \<open>i\<close> can change slot \<open>i\<close>, and objects numbered 9 or more change nothing.
\<close>

lemma load_keeps_unmatched:
  assumes "\<forall>name \<in> set (listed (objects (supabase w))). \<forall>k.
             slotNumber name = Some k \<longrightarrow> parseIntKey k \<noteq> Some i"
  shows "js_get (images (fst (snd (loadImagesFromSupabase (g, w))))) i = js_get (images g) i"
proof -
  have v: "js_get (foldl applyEntry (images g) (Object_entries m)) i = js_get (images g) i"
    if m: "m = [] \<or> m = collectSlotImages (getPublicUrl w) (listed (objects (supabase w)))" for m
  proof (rule foldl_applyEntry_other, rule ballI)
    fix e assume "e \<in> set (Object_entries m)"
    then have "e \<in> set m" by simp
    with m have "e \<in> set (collectSlotImages (getPublicUrl w) (listed (objects (supabase w))))" by auto
    then obtain name where "name \<in> set (listed (objects (supabase w)))" "slotNumber name = Some (fst e)"
      using collect_values [of e "getPublicUrl w" "listed (objects (supabase w))"] by blast
    with assms show "parseIntKey (fst e) \<noteq> Some i" by blast
  qed
  from load_images [of g w] show ?thesis
  proof
    assume "images (fst (snd (loadImagesFromSupabase (g, w)))) = images g"
    then show ?thesis by simp
  next
    assume "\<exists>m. (m = [] \<or> m = collectSlotImages (getPublicUrl w) (listed (objects (supabase w))))
         \<and> images (fst (snd (loadImagesFromSupabase (g, w))))
             = foldl applyEntry (images g) (Object_entries m)"
    then obtain m where "m = [] \<or> m = collectSlotImages (getPublicUrl w) (listed (objects (supabase w)))"
      and "images (fst (snd (loadImagesFromSupabase (g, w))))
             = foldl applyEntry (images g) (Object_entries m)" by blast
    with v show ?thesis by simp
  qed
qed

lemma load_keeps_unmatched_below:
  assumes "\<forall>name \<in> set (listed (objects (supabase w))). \<forall>k.
             slotNumber name = Some k \<longrightarrow> (\<exists>x. k = Fin x \<and> x < 10 ^ 21 \<and> x \<noteq> i)"
  shows "js_get (images (fst (snd (loadImagesFromSupabase (g, w))))) i = js_get (images g) i"
proof (rule load_keeps_unmatched, intro ballI allI impI)
  fix name k assume "name \<in> set (listed (objects (supabase w)))" "slotNumber name = Some k"
  with assms obtain x where "k = Fin x" "x < 10 ^ 21" "x \<noteq> i" by blast
  then show "parseIntKey k \<noteq> Some i" by simp
qed

lemma big_example:
  "configured (supabase (exampleWorld names))"
  "\<not> listFails (supabase (exampleWorld names))"
  "objects (supabase (exampleWorld names)) = names"
  "getPublicUrl (exampleWorld names) = exampleUrl DEFAULT_BUCKET_NAME"
  "fst (ensureBucketExists (addLog m l (exampleWorld names))) = Inr True"
  by (simp_all add: getPublicUrl_fun ensure_defs world_ops storage_ops example_defs)

lemma big_collect:
  "collectSlotImages url [''slot-1000000000000000000000-1.jpg'']
     = [(Fin 1000000000000000000000, url ''slot-1000000000000000000000-1.jpg'')]"
  by (simp add: collectSlotImages_def big_slotNumber)

lemma big_entries:
  "Object_entries [(Fin 1000000000000000000000, u)] = [(Fin 1000000000000000000000, u)]"
  by (simp add: Object_entries_def)

section \<open>Reloading and slot numbers from \<open>10^21\<close> on\<close>

text \<open>
  C10. \<open>getGridImages\<close> keeps an entry for every listed name that matches
  \<open>slot-<digits>-\<close>, whatever the number, and \<open>loadImagesFromSupabase\<close> applies an entry
  only when the slot it reads back from the key is below 9. The claim concludes that a
  stored object with an out-of-range slot number never changes the images array. For the
  bucket holding \<open>slot-1000000000000000000000-1.jpg\<close> the mapping has the single key
  \<open>10^21\<close>, which is out of range; as a property key it is the string \<open>1e+21\<close>, which
  \<open>Number.parseInt\<close> reads back as 1, and the load writes the object's URL into slot 1
  of the empty grid.
\<close>

theorem loadImages_applies_huge_slot_number:
  "fst (getGridImages (exampleWorld [''slot-1000000000000000000000-1.jpg'']))
     = Inr [(Fin 1000000000000000000000,
             exampleUrl DEFAULT_BUCKET_NAME ''slot-1000000000000000000000-1.jpg'')]
   \<and> images initialGrid
       = [Some [], Some [], Some [], Some [], Some [], Some [], Some [], Some [], Some []]
   \<and> images (fst (snd (loadImagesFromSupabase
                          (initialGrid, exampleWorld [''slot-1000000000000000000000-1.jpg'']))))
       = [Some [], Some (exampleUrl DEFAULT_BUCKET_NAME ''slot-1000000000000000000000-1.jpg''),
          Some [], Some [], Some [], Some [], Some [], Some [], Some []]"
proof -
  let ?w = "exampleWorld [''slot-1000000000000000000000-1.jpg'']"
  have "fst (getGridImages ?w)
     = Inr (collectSlotImages (getPublicUrl ?w) (listed (objects (supabase ?w))))"
    by (rule getGridImages_ok) (simp_all add: big_example example_ensure)
  then have 1: "fst (getGridImages ?w)
     = Inr [(Fin 1000000000000000000000,
             exampleUrl DEFAULT_BUCKET_NAME ''slot-1000000000000000000000-1.jpg'')]"
    by (simp add: big_example big_collect)
  have 2: "images initialGrid
       = [Some [], Some [], Some [], Some [], Some [], Some [], Some [], Some [], Some []]"
    by (simp add: initialGrid_def emptyImages_def numeral_eq_Suc)
  have "images (fst (snd (loadImagesFromSupabase (initialGrid, ?w))))
           = foldl applyEntry (images initialGrid)
               (Object_entries (collectSlotImages (getPublicUrl ?w) (listed (objects (supabase ?w)))))"
    by (rule load_ok) (simp_all add: big_example)
  then have 3: "images (fst (snd (loadImagesFromSupabase (initialGrid, ?w))))
       = [Some [], Some (exampleUrl DEFAULT_BUCKET_NAME ''slot-1000000000000000000000-1.jpg''),
          Some [], Some [], Some [], Some [], Some [], Some [], Some []]"
    unfolding 2 by (simp add: big_example big_collect big_entries applyEntry_def big_first js_set_def)
  from 1 2 3 show ?thesis by simp
qed

text \<open>
  C9. A reload is claimed to leave every slot that is absent from the mapping as it was.
  For the bucket holding \<open>slot-1000000000000000000000-9.jpg\<close> the mapping has no entry
  for slot 1, yet the reload replaces the URL that slot 1 held by the URL of that object.
  (Lemma \<open>load_keeps_unmatched_below\<close> is the claim for slot numbers below \<open>10^21\<close>.)
\<close>

theorem reload_overwrites_absent_slot:
  "fst (getGridImages (exampleWorld [''slot-1000000000000000000000-9.jpg'']))
     = Inr [(Fin 1000000000000000000000,
             exampleUrl DEFAULT_BUCKET_NAME ''slot-1000000000000000000000-9.jpg'')]
   \<and> map_of [(Fin 1000000000000000000000,
               exampleUrl DEFAULT_BUCKET_NAME ''slot-1000000000000000000000-9.jpg'')] (Fin 1)
       = None
   \<and> js_get (images (fst (snd (loadImagesFromSupabase
         (initialGrid\<lparr>images := js_set emptyImages 1
                         (exampleUrl DEFAULT_BUCKET_NAME ''slot-1-1600000000000.jpg'')\<rparr>,
          exampleWorld [''slot-1000000000000000000000-9.jpg''])))))
        1
       = Some (exampleUrl DEFAULT_BUCKET_NAME ''slot-1000000000000000000000-9.jpg'')"
proof -
  let ?w = "exampleWorld [''slot-1000000000000000000000-9.jpg'']"
  let ?g = "initialGrid\<lparr>images := js_set emptyImages 1
                         (exampleUrl DEFAULT_BUCKET_NAME ''slot-1-1600000000000.jpg'')\<rparr>"
  have sn: "slotNumber ''slot-1000000000000000000000-9.jpg'' = Some (Fin 1000000000000000000000)"
    by (simp add: slotNumber_def matchSlot_def isDigit_def parseIntDigits_def digitsValue_def
      digitVal_def big_toNumber)
  have c: "collectSlotImages url [''slot-1000000000000000000000-9.jpg'']
     = [(Fin 1000000000000000000000, url ''slot-1000000000000000000000-9.jpg'')]" for url
    by (simp add: collectSlotImages_def sn)
  have "fst (getGridImages ?w)
     = Inr (collectSlotImages (getPublicUrl ?w) (listed (objects (supabase ?w))))"
    by (rule getGridImages_ok) (simp_all add: big_example example_ensure)
  then have 1: "fst (getGridImages ?w)
     = Inr [(Fin 1000000000000000000000,
             exampleUrl DEFAULT_BUCKET_NAME ''slot-1000000000000000000000-9.jpg'')]"
    by (simp add: big_example c)
  have "images (fst (snd (loadImagesFromSupabase (?g, ?w))))
           = foldl applyEntry (images ?g)
               (Object_entries (collectSlotImages (getPublicUrl ?w) (listed (objects (supabase ?w)))))"
    by (rule load_ok) (simp_all add: big_example)
  then have 3: "js_get (images (fst (snd (loadImagesFromSupabase (?g, ?w))))) 1
       = Some (exampleUrl DEFAULT_BUCKET_NAME ''slot-1000000000000000000000-9.jpg'')"
    by (simp add: big_example c big_entries applyEntry_def big_first js_set_def js_get_def
        emptyImages_def)
  from 1 3 show ?thesis by simp
qed

end
